theory Spec2Isabelle
  imports Complex_Main "HOL-Library.Monad_Syntax" "HOL-Library.Multiset"
begin

section \<open>Data model (src/types/financial.ts)\<close>

text \<open>
  A TypeScript \<^verbatim>\<open>number\<close> is modelled as a \<^typ>\<open>real\<close>: the arithmetic of the
  engine is read as exact arithmetic, so rounding, overflow to infinity and NaN are
  outside the model. \<^verbatim>\<open>CapexItem\<close> and \<^verbatim>\<open>OpexItem\<close> are the same interface
  twice; both are the record \<open>LineItem\<close>. The fields \<^verbatim>\<open>id\<close>, \<^verbatim>\<open>unit\<close> and
  \<^verbatim>\<open>range\<close> carry a suffix because HOL already uses these names.
  \<^verbatim>\<open>projectYears\<close> only ever bounds an integer loop counter and is an \<^typ>\<open>int\<close>
  (the form reads it with \<^verbatim>\<open>parseInt\<close>).
\<close>

record LineItem =
  id_fld :: string
  name :: string
  volume :: real
  unit_fld :: string
  price :: real

type_synonym CapexItem = LineItem
type_synonym OpexItem = LineItem

record ProjectData =
  capexItems :: "CapexItem list"
  opexCashIn :: "OpexItem list"
  opexCashOut :: "OpexItem list"
  projectYears :: int
  discountRate :: real
  opexInGrowth :: real
  opexOutGrowth :: real

record FinancialMetrics =
  npv :: real
  irr :: real
  paybackPeriod :: real
  totalCapex :: real
  yearlyRevenue :: real
  yearlyExpenses :: real

record SensitivityResult =
  variable :: string
  npvLow :: real
  npvHigh :: real
  range_fld :: real

section \<open>Line-item aggregation\<close>

definition calculateTotal :: "LineItem \<Rightarrow> real" where
  "calculateTotal item = volume item * price item"

text \<open>\<^verbatim>\<open>items.reduce((sum, item) => sum + calculateTotal(item), 0)\<close> is a left fold.\<close>

definition calculateCapexTotal :: "CapexItem list \<Rightarrow> real" where
  "calculateCapexTotal items = foldl (\<lambda>sum item. sum + calculateTotal item) 0 items"

definition calculateYearlyOpexCashIn :: "OpexItem list \<Rightarrow> real" where
  "calculateYearlyOpexCashIn items = foldl (\<lambda>sum item. sum + calculateTotal item) 0 items"

definition calculateYearlyOpexCashOut :: "OpexItem list \<Rightarrow> real" where
  "calculateYearlyOpexCashOut items = foldl (\<lambda>sum item. sum + calculateTotal item) 0 items"

section \<open>Cash-flow projection\<close>

text \<open>
  The \<^verbatim>\<open>for (let year = 1; year <= projectYears; year++)\<close> loop of
  \<^verbatim>\<open>calculateNetCashFlow\<close>, pushing one yearly net value per round. The counter
  is a natural number, so \<^verbatim>\<open>Math.pow(b, year)\<close> is the power \<open>b ^ year\<close>.
\<close>

function netCashFlow_loop :: "int \<Rightarrow> real \<Rightarrow> real \<Rightarrow> real \<Rightarrow> real \<Rightarrow> nat \<Rightarrow> real list \<Rightarrow> real list" where
  "netCashFlow_loop years baseCashIn baseCashOut growthIn growthOut year cashflows =
     (if int year \<le> years then
        (let cashInYear = baseCashIn * (1 + growthIn) ^ year;
             cashOutYear = baseCashOut * (1 + growthOut) ^ year;
             yearlyNet = cashInYear - cashOutYear
         in netCashFlow_loop years baseCashIn baseCashOut growthIn growthOut (year + 1)
              (cashflows @ [yearlyNet]))
      else cashflows)"
  by pat_completeness auto
termination
  by (relation "measure (\<lambda>(years, _, _, _, _, year, _). nat (years + 1 - int year))") auto

text \<open>
  The body of the \<^verbatim>\<open>try\<close> block. The \<^verbatim>\<open>catch\<close> branch (returning \<^verbatim>\<open>[0]\<close>)
  is reached only when a field of the argument is not of its declared type; no value
  of \<open>ProjectData\<close> takes it.
\<close>

definition calculateNetCashFlow :: "ProjectData \<Rightarrow> real list" where
  "calculateNetCashFlow data =
     (let capex = calculateCapexTotal (capexItems data);
          baseCashIn = calculateYearlyOpexCashIn (opexCashIn data);
          baseCashOut = calculateYearlyOpexCashOut (opexCashOut data);
          growthIn = opexInGrowth data / 100;
          growthOut = opexOutGrowth data / 100
      in netCashFlow_loop (projectYears data) baseCashIn baseCashOut growthIn growthOut 1 [- capex])"

section \<open>Discounting\<close>

function discountFactors_loop :: "int \<Rightarrow> real \<Rightarrow> nat \<Rightarrow> real list \<Rightarrow> real list" where
  "discountFactors_loop years rate i factors =
     (if int i \<le> years then
        discountFactors_loop years rate (i + 1) (factors @ [(1 + rate) ^ i])
      else factors)"
  by pat_completeness auto
termination
  by (relation "measure (\<lambda>(years, _, i, _). nat (years + 1 - int i))") auto

text \<open>
  As in \<^verbatim>\<open>calculateNetCashFlow\<close>, the \<^verbatim>\<open>catch\<close> branch (returning \<^verbatim>\<open>[1.0]\<close>) is not
  taken on numbers: the definition is the body of the \<^verbatim>\<open>try\<close> block.
\<close>

definition calculateDiscountFactors :: "int \<Rightarrow> real \<Rightarrow> real list" where
  "calculateDiscountFactors years rate_percent =
     (let rate = rate_percent / 100
      in discountFactors_loop years rate 1 [1])"

text \<open>
  \<^verbatim>\<open>cashflows.map((cf, i) => { const df = discountFactors[i]; return df !== 0 ? cf / df : 0 })\<close>.
  The result has one entry per cash flow. Where the factor list is shorter than the
  cash flows, JavaScript reads \<^verbatim>\<open>undefined\<close> and the quotient is NaN, which no real
  number stands for: the model answers \<open>None\<close> there.
\<close>

definition calculateDiscountedCashFlow :: "real list \<Rightarrow> real list \<Rightarrow> real list option" where
  "calculateDiscountedCashFlow cashflows discountFactors =
     (if length cashflows \<le> length discountFactors then
        Some (map (\<lambda>(cf, i). let df = discountFactors ! i in if df \<noteq> 0 then cf / df else 0)
                (zip cashflows [0..<length cashflows]))
      else None)"

fun cumulative_loop :: "real list \<Rightarrow> real \<Rightarrow> real list \<Rightarrow> real list" where
  "cumulative_loop [] total0 cumulative = cumulative"
| "cumulative_loop (dcf # rest) total0 cumulative =
     (let total1 = total0 + dcf in cumulative_loop rest total1 (cumulative @ [total1]))"

definition calculateCumulativeCashFlow :: "real list \<Rightarrow> real list" where
  "calculateCumulativeCashFlow discountedCashflows = cumulative_loop discountedCashflows 0 []"

definition calculateNPV :: "real list \<Rightarrow> real" where
  "calculateNPV discountedCashflows = foldl (\<lambda>sum dcf. sum + dcf) 0 discountedCashflows"

section \<open>Internal rate of return\<close>

definition maxIterations :: nat where
  "maxIterations = 100"

definition tolerance :: real where
  "tolerance = 1 / 10 ^ 6"

text \<open>The inner loop over \<open>j\<close>: the value of the NPV polynomial and of its derivative.\<close>

function irr_sums :: "real list \<Rightarrow> real \<Rightarrow> nat \<Rightarrow> real \<Rightarrow> real \<Rightarrow> real \<times> real" where
  "irr_sums cashflows guess j npv0 dNpv0 =
     (if j < length cashflows then
        irr_sums cashflows guess (j + 1)
          (npv0 + cashflows ! j / (1 + guess) ^ j)
          (dNpv0 - real j * cashflows ! j / (1 + guess) ^ (j + 1))
      else (npv0, dNpv0))"
  by pat_completeness auto
termination
  by (relation "measure (\<lambda>(cashflows, _, j, _, _). length cashflows - j)") auto

text \<open>
  The outer loop. \<^verbatim>\<open>break\<close> returns the current guess; \<^verbatim>\<open>continue\<close> goes to the
  next round with the replaced guess; otherwise the Newton step is taken and clamped.
  Every guess the loop uses is at least \<open>-0.99\<close> (lemma \<open>irr_loop_bounds\<close>), so the
  powers of \<open>1 + guess\<close> that \<open>irr_sums\<close> divides by are positive, and the Newton step
  divides by a derivative of absolute value at least the tolerance.
\<close>

function irr_loop :: "real list \<Rightarrow> nat \<Rightarrow> real \<Rightarrow> real" where
  "irr_loop cashflows i guess =
     (if i < maxIterations then
        (case irr_sums cashflows guess 0 0 0 of (npv1, dNpv1) \<Rightarrow>
           if \<bar>npv1\<bar> < tolerance then guess
           else if \<bar>dNpv1\<bar> < tolerance then
             irr_loop cashflows (i + 1) (if guess > 0 then - 0.9 else 0.9)
           else
             (let guess1 = guess - npv1 / dNpv1;
                  guess2 = (if guess1 < - 0.99 then - 0.99 else guess1);
                  guess3 = (if guess2 > 10 then 10 else guess2)
              in irr_loop cashflows (i + 1) guess3))
      else guess)"
  by pat_completeness auto
termination
  by (relation "measure (\<lambda>(_, i, _). maxIterations - i)") auto

definition calculateIRR :: "real list \<Rightarrow> real" where
  "calculateIRR cashflows =
     (if length cashflows < 2 then 0 else irr_loop cashflows 0 0.1)"

section \<open>Payback period\<close>

text \<open>
  The scan of \<^verbatim>\<open>calculatePaybackPeriod\<close> from index \<open>i\<close> on. A non-negative entry
  at a positive index whose difference to its predecessor is zero returns nothing and
  the scan goes on; the end of the list returns \<^verbatim>\<open>length - 1\<close>.
\<close>

function payback_loop :: "real list \<Rightarrow> nat \<Rightarrow> real" where
  "payback_loop cumulativeCashflows i =
     (if i < length cumulativeCashflows then
        (if cumulativeCashflows ! i \<ge> 0 then
           (if i = 0 then 0
            else
              (let prevCumulative = cumulativeCashflows ! (i - 1);
                   currCumulative = cumulativeCashflows ! i
               in if currCumulative - prevCumulative \<noteq> 0 then
                    (let fraction = \<bar>prevCumulative\<bar> / (currCumulative - prevCumulative)
                     in real (i - 1) + fraction)
                  else payback_loop cumulativeCashflows (i + 1)))
         else payback_loop cumulativeCashflows (i + 1))
      else real (length cumulativeCashflows) - 1)"
  by pat_completeness auto
termination
  by (relation "measure (\<lambda>(cs, i). length cs - i)") auto

definition calculatePaybackPeriod :: "real list \<Rightarrow> real" where
  "calculatePaybackPeriod cumulativeCashflows = payback_loop cumulativeCashflows 0"

section \<open>Metrics\<close>

text \<open>
  The two series passed to \<open>calculateDiscountedCashFlow\<close> here have the same length, so
  the call always answers \<open>Some\<close> and so does \<open>calculateFinancialMetrics\<close> (lemma
  \<open>calculateFinancialMetrics_npv\<close>).
\<close>

definition calculateFinancialMetrics :: "ProjectData \<Rightarrow> FinancialMetrics option" where
  "calculateFinancialMetrics data = do {
     let cashflows = calculateNetCashFlow data;
     let discountFactors = calculateDiscountFactors (projectYears data) (discountRate data);
     discountedCashflows \<leftarrow> calculateDiscountedCashFlow cashflows discountFactors;
     let cumulativeCashflows = calculateCumulativeCashFlow discountedCashflows;
     Some \<lparr> npv = calculateNPV discountedCashflows,
            irr = calculateIRR cashflows,
            paybackPeriod = calculatePaybackPeriod cumulativeCashflows,
            totalCapex = calculateCapexTotal (capexItems data),
            yearlyRevenue = calculateYearlyOpexCashIn (opexCashIn data),
            yearlyExpenses = calculateYearlyOpexCashOut (opexCashOut data) \<rparr>
   }"

section \<open>Sensitivity analysis\<close>

text \<open>
  \<^verbatim>\<open>Array.prototype.sort(compare)\<close> belongs to the language, not to the repository.
  ECMAScript specifies it as a stable sort: \<open>a\<close> stays before \<open>b\<close> unless
  \<open>compare(a, b) > 0\<close>. The model is the stable insertion sort with that comparator.
\<close>

fun insert_by :: "('a \<Rightarrow> 'a \<Rightarrow> real) \<Rightarrow> 'a \<Rightarrow> 'a list \<Rightarrow> 'a list" where
  "insert_by compare x [] = [x]"
| "insert_by compare x (y # ys) =
     (if compare x y \<le> 0 then x # y # ys else y # insert_by compare x ys)"

definition array_sort :: "('a \<Rightarrow> 'a \<Rightarrow> real) \<Rightarrow> 'a list \<Rightarrow> 'a list" where
  "array_sort compare xs = foldr (insert_by compare) xs []"

text \<open>
  \<^verbatim>\<open>performSensitivityAnalysis\<close> on values: an object spread with a mapped item list
  is a record update with a mapped list. The four \<^verbatim>\<open>results.push\<close> calls append to
  the result list in the order of the source, and the list is sorted at the end. The
  second parameter has the default \<^verbatim>\<open>20\<close> in the source; here it is always given.
\<close>

definition performSensitivityAnalysis :: "ProjectData \<Rightarrow> real \<Rightarrow> SensitivityResult list option" where
  "performSensitivityAnalysis data variation = do {
     let variationDecimal = variation / 100;
     let baseCashflows = calculateNetCashFlow data;
     let baseDiscountFactors = calculateDiscountFactors (projectYears data) (discountRate data);
     baseDiscounted \<leftarrow> calculateDiscountedCashFlow baseCashflows baseDiscountFactors;
     let baseNPV = calculateNPV baseDiscounted;
     let results = [];

     let highRevenueData = data\<lparr>opexCashIn :=
           map (\<lambda>item. item\<lparr>price := price item * (1 + variationDecimal)\<rparr>) (opexCashIn data)\<rparr>;
     let lowRevenueData = data\<lparr>opexCashIn :=
           map (\<lambda>item. item\<lparr>price := price item * (1 - variationDecimal)\<rparr>) (opexCashIn data)\<rparr>;
     metricsRevenueHigh \<leftarrow> calculateFinancialMetrics highRevenueData;
     metricsRevenueLow \<leftarrow> calculateFinancialMetrics lowRevenueData;
     let npvRevenueHigh = npv metricsRevenueHigh;
     let npvRevenueLow = npv metricsRevenueLow;
     let results = results @ [\<lparr> variable = ''Revenue'',
           npvLow = npvRevenueLow, npvHigh = npvRevenueHigh,
           range_fld = npvRevenueHigh - npvRevenueLow \<rparr>];

     let highCostData = data\<lparr>opexCashOut :=
           map (\<lambda>item. item\<lparr>price := price item * (1 + variationDecimal)\<rparr>) (opexCashOut data)\<rparr>;
     let lowCostData = data\<lparr>opexCashOut :=
           map (\<lambda>item. item\<lparr>price := price item * (1 - variationDecimal)\<rparr>) (opexCashOut data)\<rparr>;
     metricsCostHigh \<leftarrow> calculateFinancialMetrics highCostData;
     metricsCostLow \<leftarrow> calculateFinancialMetrics lowCostData;
     let npvCostHigh = npv metricsCostHigh;
     let npvCostLow = npv metricsCostLow;
     let results = results @ [\<lparr> variable = ''Operating Costs'',
           npvLow = npvCostHigh, npvHigh = npvCostLow,
           range_fld = npvCostLow - npvCostHigh \<rparr>];

     let highCapexData = data\<lparr>capexItems :=
           map (\<lambda>item. item\<lparr>price := price item * (1 + variationDecimal)\<rparr>) (capexItems data)\<rparr>;
     let lowCapexData = data\<lparr>capexItems :=
           map (\<lambda>item. item\<lparr>price := price item * (1 - variationDecimal)\<rparr>) (capexItems data)\<rparr>;
     metricsCapexHigh \<leftarrow> calculateFinancialMetrics highCapexData;
     metricsCapexLow \<leftarrow> calculateFinancialMetrics lowCapexData;
     let npvCapexHigh = npv metricsCapexHigh;
     let npvCapexLow = npv metricsCapexLow;
     let results = results @ [\<lparr> variable = ''Initial Investment'',
           npvLow = npvCapexHigh, npvHigh = npvCapexLow,
           range_fld = npvCapexLow - npvCapexHigh \<rparr>];

     let highRateData = data\<lparr>discountRate := discountRate data * (1 + variationDecimal)\<rparr>;
     let lowRateData = data\<lparr>discountRate := max 0.1 (discountRate data * (1 - variationDecimal))\<rparr>;
     metricsRateHigh \<leftarrow> calculateFinancialMetrics highRateData;
     metricsRateLow \<leftarrow> calculateFinancialMetrics lowRateData;
     let npvRateHigh = npv metricsRateHigh;
     let npvRateLow = npv metricsRateLow;
     let results = results @ [\<lparr> variable = ''Discount Rate'',
           npvLow = npvRateHigh, npvHigh = npvRateLow,
           range_fld = npvRateLow - npvRateHigh \<rparr>];

     Some (array_sort (\<lambda>a b. range_fld b - range_fld a) results)
   }"

section \<open>The same functions on an object store\<close>

text \<open>
  JavaScript objects and arrays are references into a mutable store. To say what a
  call leaves untouched, the project data and everything \<^verbatim>\<open>performSensitivityAnalysis\<close>
  creates or updates live in an explicit store: a list of cells, an address being an
  index. A project object holds the addresses of its three item arrays, an item array
  holds the addresses of its items. The array \<^verbatim>\<open>results\<close> is a cell as well, updated
  in place by \<^verbatim>\<open>push\<close> and \<^verbatim>\<open>sort\<close>; its records are fresh literals that nothing
  else refers to and are kept in the cell by value.
\<close>

record ProjectObj =
  capexItems_ref :: nat
  opexCashIn_ref :: nat
  opexCashOut_ref :: nat
  projectYears_val :: int
  discountRate_val :: real
  opexInGrowth_val :: real
  opexOutGrowth_val :: real

datatype cell =
  ItemCell LineItem
| ItemsCell "nat list"
| ProjectCell ProjectObj
| ResultsCell "SensitivityResult list"

type_synonym store = "cell list"

definition cell_at :: "store \<Rightarrow> nat \<Rightarrow> cell option" where
  "cell_at h a = (if a < length h then Some (h ! a) else None)"

text \<open>An object or array literal takes the next free address.\<close>

definition alloc :: "store \<Rightarrow> cell \<Rightarrow> nat \<times> store" where
  "alloc h c = (length h, h @ [c])"

text \<open>An update in place; there is nothing to update at an address not in use.\<close>

definition overwrite :: "store \<Rightarrow> nat \<Rightarrow> cell \<Rightarrow> store option" where
  "overwrite h a c = (if a < length h then Some (h[a := c]) else None)"

text \<open>
  Typed reads. A read answers \<open>None\<close> at an address that is not in use or holds a cell
  of another kind, which no well-typed argument leads to.
\<close>

definition read_item :: "store \<Rightarrow> nat \<Rightarrow> LineItem option" where
  "read_item h a = (case cell_at h a of Some (ItemCell item) \<Rightarrow> Some item | _ \<Rightarrow> None)"

definition read_array :: "store \<Rightarrow> nat \<Rightarrow> nat list option" where
  "read_array h a = (case cell_at h a of Some (ItemsCell refs) \<Rightarrow> Some refs | _ \<Rightarrow> None)"

definition read_project :: "store \<Rightarrow> nat \<Rightarrow> ProjectObj option" where
  "read_project h a = (case cell_at h a of Some (ProjectCell p) \<Rightarrow> Some p | _ \<Rightarrow> None)"

definition read_results :: "store \<Rightarrow> nat \<Rightarrow> SensitivityResult list option" where
  "read_results h a = (case cell_at h a of Some (ResultsCell rs) \<Rightarrow> Some rs | _ \<Rightarrow> None)"

fun read_items :: "store \<Rightarrow> nat list \<Rightarrow> LineItem list option" where
  "read_items h [] = Some []"
| "read_items h (r # rs) = do {
     item \<leftarrow> read_item h r;
     items \<leftarrow> read_items h rs;
     Some (item # items)
   }"

text \<open>The value of the project object at an address: every field and every item.\<close>

definition snapshot :: "store \<Rightarrow> nat \<Rightarrow> ProjectData option" where
  "snapshot h a = do {
     p \<leftarrow> read_project h a;
     capexRefs \<leftarrow> read_array h (capexItems_ref p);
     capex \<leftarrow> read_items h capexRefs;
     cashInRefs \<leftarrow> read_array h (opexCashIn_ref p);
     cashIn \<leftarrow> read_items h cashInRefs;
     cashOutRefs \<leftarrow> read_array h (opexCashOut_ref p);
     cashOut \<leftarrow> read_items h cashOutRefs;
     Some \<lparr> capexItems = capex, opexCashIn = cashIn, opexCashOut = cashOut,
            projectYears = projectYears_val p, discountRate = discountRate_val p,
            opexInGrowth = opexInGrowth_val p, opexOutGrowth = opexOutGrowth_val p \<rparr>
   }"

text \<open>
  \<^verbatim>\<open>calculateFinancialMetrics\<close> only reads its argument; the arrays it builds are its
  own and stay values.
\<close>

definition calculateFinancialMetrics_h :: "store \<Rightarrow> nat \<Rightarrow> FinancialMetrics option" where
  "calculateFinancialMetrics_h h a = do {
     data \<leftarrow> snapshot h a;
     calculateFinancialMetrics data
   }"

text \<open>
  \<^verbatim>\<open>items.map(item => ({ ...item, price: item.price * k }))\<close>: one new item object per
  element; the caller allocates the new array.
\<close>

fun map_price_h :: "store \<Rightarrow> real \<Rightarrow> nat list \<Rightarrow> (nat list \<times> store) option" where
  "map_price_h h k [] = Some ([], h)"
| "map_price_h h k (r # rs) = do {
     item \<leftarrow> read_item h r;
     let (a, h1) = alloc h (ItemCell (item\<lparr>price := price item * k\<rparr>));
     (refs, h2) \<leftarrow> map_price_h h1 k rs;
     Some (a # refs, h2)
   }"

text \<open>
  The object spreads \<^verbatim>\<open>{ ...data, field: data.field.map(...) }\<close>: a new project object
  whose other fields, the addresses of the other two arrays among them, are copied
  from \<^verbatim>\<open>data\<close>.
\<close>

definition spread_opexCashIn_h :: "store \<Rightarrow> nat \<Rightarrow> real \<Rightarrow> (nat \<times> store) option" where
  "spread_opexCashIn_h h data k = do {
     p \<leftarrow> read_project h data;
     refs \<leftarrow> read_array h (opexCashIn_ref p);
     (refs', h1) \<leftarrow> map_price_h h k refs;
     let (arr, h2) = alloc h1 (ItemsCell refs');
     Some (alloc h2 (ProjectCell (p\<lparr>opexCashIn_ref := arr\<rparr>)))
   }"

definition spread_opexCashOut_h :: "store \<Rightarrow> nat \<Rightarrow> real \<Rightarrow> (nat \<times> store) option" where
  "spread_opexCashOut_h h data k = do {
     p \<leftarrow> read_project h data;
     refs \<leftarrow> read_array h (opexCashOut_ref p);
     (refs', h1) \<leftarrow> map_price_h h k refs;
     let (arr, h2) = alloc h1 (ItemsCell refs');
     Some (alloc h2 (ProjectCell (p\<lparr>opexCashOut_ref := arr\<rparr>)))
   }"

definition spread_capexItems_h :: "store \<Rightarrow> nat \<Rightarrow> real \<Rightarrow> (nat \<times> store) option" where
  "spread_capexItems_h h data k = do {
     p \<leftarrow> read_project h data;
     refs \<leftarrow> read_array h (capexItems_ref p);
     (refs', h1) \<leftarrow> map_price_h h k refs;
     let (arr, h2) = alloc h1 (ItemsCell refs');
     Some (alloc h2 (ProjectCell (p\<lparr>capexItems_ref := arr\<rparr>)))
   }"

text \<open>\<^verbatim>\<open>{ ...data, discountRate: f(data.discountRate) }\<close>.\<close>

definition spread_discountRate_h :: "store \<Rightarrow> nat \<Rightarrow> (real \<Rightarrow> real) \<Rightarrow> (nat \<times> store) option" where
  "spread_discountRate_h h data f = do {
     p \<leftarrow> read_project h data;
     Some (alloc h (ProjectCell (p\<lparr>discountRate_val := f (discountRate_val p)\<rparr>)))
   }"

text \<open>\<^verbatim>\<open>results.push(r)\<close> and \<^verbatim>\<open>results.sort(compare)\<close> update the array in place.\<close>

definition push_h :: "store \<Rightarrow> nat \<Rightarrow> SensitivityResult \<Rightarrow> store option" where
  "push_h h results r = do {
     rs \<leftarrow> read_results h results;
     overwrite h results (ResultsCell (rs @ [r]))
   }"

definition sort_h :: "store \<Rightarrow> nat \<Rightarrow> (SensitivityResult \<Rightarrow> SensitivityResult \<Rightarrow> real) \<Rightarrow> store option" where
  "sort_h h results compare = do {
     rs \<leftarrow> read_results h results;
     overwrite h results (ResultsCell (array_sort compare rs))
   }"

definition performSensitivityAnalysis_h :: "store \<Rightarrow> nat \<Rightarrow> real \<Rightarrow> (nat \<times> store) option" where
  "performSensitivityAnalysis_h h data variation = do {
     let variationDecimal = variation / 100;
     base \<leftarrow> snapshot h data;
     let baseCashflows = calculateNetCashFlow base;
     let baseDiscountFactors = calculateDiscountFactors (projectYears base) (discountRate base);
     baseDiscounted \<leftarrow> calculateDiscountedCashFlow baseCashflows baseDiscountFactors;
     let baseNPV = calculateNPV baseDiscounted;
     let (results, h) = alloc h (ResultsCell []);

     (highRevenueData, h) \<leftarrow> spread_opexCashIn_h h data (1 + variationDecimal);
     (lowRevenueData, h) \<leftarrow> spread_opexCashIn_h h data (1 - variationDecimal);
     metricsRevenueHigh \<leftarrow> calculateFinancialMetrics_h h highRevenueData;
     metricsRevenueLow \<leftarrow> calculateFinancialMetrics_h h lowRevenueData;
     let npvRevenueHigh = npv metricsRevenueHigh;
     let npvRevenueLow = npv metricsRevenueLow;
     h \<leftarrow> push_h h results \<lparr> variable = ''Revenue'',
           npvLow = npvRevenueLow, npvHigh = npvRevenueHigh,
           range_fld = npvRevenueHigh - npvRevenueLow \<rparr>;

     (highCostData, h) \<leftarrow> spread_opexCashOut_h h data (1 + variationDecimal);
     (lowCostData, h) \<leftarrow> spread_opexCashOut_h h data (1 - variationDecimal);
     metricsCostHigh \<leftarrow> calculateFinancialMetrics_h h highCostData;
     metricsCostLow \<leftarrow> calculateFinancialMetrics_h h lowCostData;
     let npvCostHigh = npv metricsCostHigh;
     let npvCostLow = npv metricsCostLow;
     h \<leftarrow> push_h h results \<lparr> variable = ''Operating Costs'',
           npvLow = npvCostHigh, npvHigh = npvCostLow,
           range_fld = npvCostLow - npvCostHigh \<rparr>;

     (highCapexData, h) \<leftarrow> spread_capexItems_h h data (1 + variationDecimal);
     (lowCapexData, h) \<leftarrow> spread_capexItems_h h data (1 - variationDecimal);
     metricsCapexHigh \<leftarrow> calculateFinancialMetrics_h h highCapexData;
     metricsCapexLow \<leftarrow> calculateFinancialMetrics_h h lowCapexData;
     let npvCapexHigh = npv metricsCapexHigh;
     let npvCapexLow = npv metricsCapexLow;
     h \<leftarrow> push_h h results \<lparr> variable = ''Initial Investment'',
           npvLow = npvCapexHigh, npvHigh = npvCapexLow,
           range_fld = npvCapexLow - npvCapexHigh \<rparr>;

     (highRateData, h) \<leftarrow> spread_discountRate_h h data (\<lambda>rate. rate * (1 + variationDecimal));
     (lowRateData, h) \<leftarrow> spread_discountRate_h h data (\<lambda>rate. max 0.1 (rate * (1 - variationDecimal)));
     metricsRateHigh \<leftarrow> calculateFinancialMetrics_h h highRateData;
     metricsRateLow \<leftarrow> calculateFinancialMetrics_h h lowRateData;
     let npvRateHigh = npv metricsRateHigh;
     let npvRateLow = npv metricsRateLow;
     h \<leftarrow> push_h h results \<lparr> variable = ''Discount Rate'',
           npvLow = npvRateHigh, npvHigh = npvRateLow,
           range_fld = npvRateLow - npvRateHigh \<rparr>;

     h \<leftarrow> sort_h h results (\<lambda>a b. range_fld b - range_fld a);
     Some (results, h)
   }"

text \<open>A store agrees with an earlier one when every cell of the earlier one is still there.\<close>

definition unchanged_from :: "store \<Rightarrow> store \<Rightarrow> bool" where
  "unchanged_from h h' \<longleftrightarrow> length h \<le> length h' \<and> take (length h) h' = h"

section \<open>A closed form used in the proofs\<close>

text \<open>
  Not a function of the program: the sum that the pipeline of
  \<open>calculateFinancialMetrics\<close> computes for the field \<open>npv\<close> (lemma
  \<open>calculateFinancialMetrics_npv\<close>), named so that the scenarios of the sensitivity
  analysis can be compared.
\<close>

definition npv_closed_form :: "ProjectData \<Rightarrow> real" where
  "npv_closed_form d =
     (\<Sum>i\<leftarrow>[0..<nat (projectYears d) + 1].
        calculateNetCashFlow d ! i / (1 + discountRate d / 100) ^ i)"

section \<open>Properties of the aggregation and the projection\<close>

lemma foldl_add_total:
  "foldl (\<lambda>sum item. sum + calculateTotal item) a items =
     a + (\<Sum>item\<leftarrow>items. volume item * price item)"
  by (induction items arbitrary: a) (simp_all add: calculateTotal_def)

lemma calculateCapexTotal_sum:
  "calculateCapexTotal items = (\<Sum>item\<leftarrow>items. volume item * price item)"
  by (simp add: calculateCapexTotal_def foldl_add_total)

lemma calculateYearlyOpexCashIn_sum:
  "calculateYearlyOpexCashIn items = (\<Sum>item\<leftarrow>items. volume item * price item)"
  by (simp add: calculateYearlyOpexCashIn_def foldl_add_total)

lemma calculateYearlyOpexCashOut_sum:
  "calculateYearlyOpexCashOut items = (\<Sum>item\<leftarrow>items. volume item * price item)"
  by (simp add: calculateYearlyOpexCashOut_def foldl_add_total)

declare netCashFlow_loop.simps [simp del]

lemma netCashFlow_loop_eq:
  "netCashFlow_loop years bi bo gi go year cfs =
     cfs @ map (\<lambda>i. bi * (1 + gi) ^ i - bo * (1 + go) ^ i) [year..<nat (years + 1)]"
proof (induction years bi bo gi go year cfs rule: netCashFlow_loop.induct)
  case (1 years bi bo gi go year cfs)
  show ?case
  proof (cases "int year \<le> years")
    case True
    then have lt: "year < nat (years + 1)" by linarith
    have "netCashFlow_loop years bi bo gi go year cfs =
            netCashFlow_loop years bi bo gi go (year + 1)
              (cfs @ [bi * (1 + gi) ^ year - bo * (1 + go) ^ year])"
      using True by (subst netCashFlow_loop.simps) (simp add: Let_def)
    also have "\<dots> = (cfs @ [bi * (1 + gi) ^ year - bo * (1 + go) ^ year]) @
            map (\<lambda>i. bi * (1 + gi) ^ i - bo * (1 + go) ^ i) [year + 1..<nat (years + 1)]"
      using "1.IH" [OF True refl refl refl] by simp
    also have "\<dots> = cfs @ map (\<lambda>i. bi * (1 + gi) ^ i - bo * (1 + go) ^ i) [year..<nat (years + 1)]"
      using lt by (simp add: upt_conv_Cons)
    finally show ?thesis .
  next
    case False
    then have "nat (years + 1) \<le> year" by linarith
    with False show ?thesis
      by (subst netCashFlow_loop.simps) simp
  qed
qed

lemma calculateNetCashFlow_eq:
  "calculateNetCashFlow data =
     - calculateCapexTotal (capexItems data) #
       map (\<lambda>i. calculateYearlyOpexCashIn (opexCashIn data) * (1 + opexInGrowth data / 100) ^ i
               - calculateYearlyOpexCashOut (opexCashOut data) * (1 + opexOutGrowth data / 100) ^ i)
         [1..<nat (projectYears data + 1)]"
  by (simp add: calculateNetCashFlow_def Let_def netCashFlow_loop_eq)

lemma length_calculateNetCashFlow:
  "length (calculateNetCashFlow data) = nat (projectYears data) + 1"
  by (simp add: calculateNetCashFlow_eq)

text \<open>
  Claim C1. For a project with \<open>projectYears \<ge> 1\<close>, \<open>calculateNetCashFlow\<close> returns
  \<open>projectYears + 1\<close> numbers; entry 0 is the negated sum of \<open>volume * price\<close> over the
  capital items, and entry \<open>i\<close> for \<open>1 \<le> i \<le> projectYears\<close> is the operating inflow
  total times \<open>(1 + opexInGrowth/100) ^ i\<close> minus the operating outflow total times
  \<open>(1 + opexOutGrowth/100) ^ i\<close>. With totals 1000000, 500000 and 200000, no growth and
  three years the series is \<open>[-1000000, 300000, 300000, 300000]\<close>.
\<close>

theorem calculateNetCashFlow_series:
  "(1 \<le> projectYears data \<longrightarrow>
      int (length (calculateNetCashFlow data)) = projectYears data + 1 \<and>
      calculateNetCashFlow data ! 0 = - (\<Sum>item\<leftarrow>capexItems data. volume item * price item) \<and>
      (\<forall>i. 1 \<le> i \<and> int i \<le> projectYears data \<longrightarrow>
         calculateNetCashFlow data ! i =
           (\<Sum>item\<leftarrow>opexCashIn data. volume item * price item) * (1 + opexInGrowth data / 100) ^ i
         - (\<Sum>item\<leftarrow>opexCashOut data. volume item * price item) * (1 + opexOutGrowth data / 100) ^ i))
   \<and>
   ((\<Sum>item\<leftarrow>capexItems data. volume item * price item) = 1000000 \<and>
    (\<Sum>item\<leftarrow>opexCashIn data. volume item * price item) = 500000 \<and>
    (\<Sum>item\<leftarrow>opexCashOut data. volume item * price item) = 200000 \<and>
    opexInGrowth data = 0 \<and> opexOutGrowth data = 0 \<and> projectYears data = 3 \<longrightarrow>
      calculateNetCashFlow data = [- 1000000, 300000, 300000, 300000])"
proof (intro conjI impI allI)
  assume "1 \<le> projectYears data"
  then show "int (length (calculateNetCashFlow data)) = projectYears data + 1"
    by (simp add: length_calculateNetCashFlow)
next
  show "calculateNetCashFlow data ! 0 = - (\<Sum>item\<leftarrow>capexItems data. volume item * price item)"
    by (simp add: calculateNetCashFlow_eq calculateCapexTotal_sum)
next
  fix i :: nat
  assume "1 \<le> i \<and> int i \<le> projectYears data"
  then have i: "1 \<le> i" "i - 1 < nat (projectYears data + 1) - 1" by linarith+
  then obtain k where k: "i = Suc k" by (cases i) auto
  with i have "[1..<nat (projectYears data + 1)] ! k = i" by (simp add: nth_upt)
  with i k show "calculateNetCashFlow data ! i =
           (\<Sum>item\<leftarrow>opexCashIn data. volume item * price item) * (1 + opexInGrowth data / 100) ^ i
         - (\<Sum>item\<leftarrow>opexCashOut data. volume item * price item) * (1 + opexOutGrowth data / 100) ^ i"
    by (simp add: calculateNetCashFlow_eq calculateYearlyOpexCashIn_sum calculateYearlyOpexCashOut_sum)
next
  assume "(\<Sum>item\<leftarrow>capexItems data. volume item * price item) = 1000000 \<and>
    (\<Sum>item\<leftarrow>opexCashIn data. volume item * price item) = 500000 \<and>
    (\<Sum>item\<leftarrow>opexCashOut data. volume item * price item) = 200000 \<and>
    opexInGrowth data = 0 \<and> opexOutGrowth data = 0 \<and> projectYears data = 3"
  moreover have "[1..<4] = [1, 2, 3::nat]" by (simp add: upt_conv_Cons)
  ultimately show "calculateNetCashFlow data = [- 1000000, 300000, 300000, 300000]"
    by (simp add: calculateNetCashFlow_eq calculateCapexTotal_sum
        calculateYearlyOpexCashIn_sum calculateYearlyOpexCashOut_sum)
qed

theorem calculateNetCashFlow_series_witness:
  "calculateNetCashFlow
     \<lparr> capexItems = [\<lparr> id_fld = ''1'', name = ''Plant'', volume = 2, unit_fld = ''unit'', price = 500000 \<rparr>],
       opexCashIn = [\<lparr> id_fld = ''2'', name = ''Sales'', volume = 1000, unit_fld = ''ton'', price = 500 \<rparr>],
       opexCashOut = [\<lparr> id_fld = ''3'', name = ''Wages'', volume = 4, unit_fld = ''person'', price = 30000 \<rparr>,
                      \<lparr> id_fld = ''4'', name = ''Power'', volume = 80, unit_fld = ''MWh'', price = 1000 \<rparr>],
       projectYears = 3, discountRate = 12, opexInGrowth = 0, opexOutGrowth = 0 \<rparr>
   = [- 1000000, 300000, 300000, 300000]
   \<and> (1::int) \<le> 3 \<and> int (length [- 1000000, 300000, 300000, 300000 :: real]) = 3 + 1"
  using calculateNetCashFlow_series [of
     "\<lparr> capexItems = [\<lparr> id_fld = ''1'', name = ''Plant'', volume = 2, unit_fld = ''unit'', price = 500000 \<rparr>],
       opexCashIn = [\<lparr> id_fld = ''2'', name = ''Sales'', volume = 1000, unit_fld = ''ton'', price = 500 \<rparr>],
       opexCashOut = [\<lparr> id_fld = ''3'', name = ''Wages'', volume = 4, unit_fld = ''person'', price = 30000 \<rparr>,
                      \<lparr> id_fld = ''4'', name = ''Power'', volume = 80, unit_fld = ''MWh'', price = 1000 \<rparr>],
       projectYears = 3, discountRate = 12, opexInGrowth = 0, opexOutGrowth = 0 \<rparr>"]
  by simp

section \<open>Payback period: properties\<close>

declare payback_loop.simps [simp del]

lemma payback_loop_skip:
  "k \<le> i \<Longrightarrow> i \<le> length cs \<Longrightarrow> \<forall>j. k \<le> j \<and> j < i \<longrightarrow> cs ! j < 0 \<Longrightarrow>
     payback_loop cs k = payback_loop cs i"
proof (induction "i - k" arbitrary: k)
  case 0
  then show ?case by simp
next
  case (Suc n)
  then have "k < i" "k < length cs" "cs ! k < 0" by auto
  then have "payback_loop cs k = payback_loop cs (k + 1)"
    by (subst payback_loop.simps) simp
  also have "\<dots> = payback_loop cs i"
    using Suc by (intro Suc.hyps(1)) auto
  finally show ?case .
qed

lemma payback_loop_at_end: "payback_loop cs (length cs) = real (length cs) - 1"
  by (subst payback_loop.simps) simp

lemma payback_loop_zero_delta:
  "i < length cs \<Longrightarrow> 0 < i \<Longrightarrow> 0 \<le> cs ! i \<Longrightarrow> cs ! i - cs ! (i - 1) = 0 \<Longrightarrow>
     payback_loop cs i = payback_loop cs (i + 1)"
  by (subst payback_loop.simps) simp

lemma payback_loop_hit:
  "i < length cs \<Longrightarrow> 0 \<le> cs ! i \<Longrightarrow> i = 0 \<or> cs ! i - cs ! (i - 1) \<noteq> 0 \<Longrightarrow>
     payback_loop cs i =
       (if i = 0 then 0 else real (i - 1) + \<bar>cs ! (i - 1)\<bar> / (cs ! i - cs ! (i - 1)))"
  by (subst payback_loop.simps) (auto simp: Let_def)

text \<open>
  Claim C2. \<open>calculatePaybackPeriod\<close> answers at the first index \<open>i\<close> whose entry is
  non-negative: 0 when \<open>i = 0\<close>, otherwise \<open>(i - 1) + |c[i-1]| / (c[i] - c[i-1])\<close>, the
  denominator being non-zero there; an entry with a zero difference lets the scan go
  on; a series that never becomes non-negative gives \<open>length - 1\<close>; and the series
  \<open>[-100, -40, 20, 80]\<close> gives \<open>1 + 40/60\<close>.
\<close>

theorem calculatePaybackPeriod_first_nonneg:
  "(i < length cs \<and> 0 \<le> cs ! i \<and> (\<forall>j<i. cs ! j < 0) \<longrightarrow>
      (0 < i \<longrightarrow> cs ! i - cs ! (i - 1) \<noteq> 0) \<and>
      calculatePaybackPeriod cs =
        (if i = 0 then 0 else real (i - 1) + \<bar>cs ! (i - 1)\<bar> / (cs ! i - cs ! (i - 1))))
   \<and> (i < length cs \<and> 0 < i \<and> 0 \<le> cs ! i \<and> cs ! i - cs ! (i - 1) = 0 \<longrightarrow>
        payback_loop cs i = payback_loop cs (i + 1))
   \<and> ((\<forall>j<length cs. cs ! j < 0) \<longrightarrow> calculatePaybackPeriod cs = real (length cs) - 1)
   \<and> calculatePaybackPeriod [- 100, - 40, 20, 80] = 1 + 40 / 60"
proof -
  have first: "(0 < i \<longrightarrow> cs ! i - cs ! (i - 1) \<noteq> 0) \<and>
      calculatePaybackPeriod cs =
        (if i = 0 then 0 else real (i - 1) + \<bar>cs ! (i - 1)\<bar> / (cs ! i - cs ! (i - 1)))"
    if a: "i < length cs \<and> 0 \<le> cs ! i \<and> (\<forall>j<i. cs ! j < 0)"
  proof -
    have pos: "cs ! i - cs ! (i - 1) \<noteq> 0" if "0 < i"
    proof -
      from a that have "cs ! (i - 1) < 0" by simp
      with a show ?thesis by linarith
    qed
    then have nz: "i = 0 \<or> cs ! i - cs ! (i - 1) \<noteq> 0" by auto
    have "calculatePaybackPeriod cs = payback_loop cs i"
      unfolding calculatePaybackPeriod_def using a by (intro payback_loop_skip) auto
    with a nz pos show ?thesis
      by (simp only: payback_loop_hit) blast
  qed
  have plateau: "payback_loop cs i = payback_loop cs (i + 1)"
    if "i < length cs \<and> 0 < i \<and> 0 \<le> cs ! i \<and> cs ! i - cs ! (i - 1) = 0"
    using that by (simp only: payback_loop_zero_delta)
  have never: "calculatePaybackPeriod cs = real (length cs) - 1"
    if "\<forall>j<length cs. cs ! j < 0"
  proof -
    from that have "payback_loop cs 0 = payback_loop cs (length cs)"
      by (intro payback_loop_skip) auto
    then show ?thesis
      by (simp add: calculatePaybackPeriod_def payback_loop_at_end)
  qed
  have "payback_loop [- 100, - 40, 20, 80] 0 = payback_loop [- 100, - 40, 20, 80] 2"
    by (intro payback_loop_skip) (auto simp: less_Suc_eq numeral_2_eq_2)
  also have "\<dots> = 1 + 40 / 60"
    by (subst payback_loop.simps) (simp add: numeral_2_eq_2)
  finally have example: "calculatePaybackPeriod [- 100, - 40, 20, 80] = 1 + 40 / 60"
    by (simp add: calculatePaybackPeriod_def)
  from first plateau never example show ?thesis by blast
qed

theorem calculatePaybackPeriod_first_nonneg_witness:
  "calculatePaybackPeriod [- 100, - 40, 20, 80] = 5 / 3 \<and>
   calculatePaybackPeriod [- 5, - 3] = 1 \<and>
   calculatePaybackPeriod [7, - 3] = 0"
  using calculatePaybackPeriod_first_nonneg [of 2 "[- 100, - 40, 20, 80]"]
    calculatePaybackPeriod_first_nonneg [of 0 "[- 5, - 3]"]
    calculatePaybackPeriod_first_nonneg [of 0 "[7, - 3]"]
  by (simp add: less_Suc_eq numeral_2_eq_2)

text \<open>
  Claim C10. On the empty series \<open>calculatePaybackPeriod\<close> returns \<open>-1\<close>, the value of
  \<open>length - 1\<close>, and no error.
\<close>

theorem calculatePaybackPeriod_empty: "calculatePaybackPeriod [] = - 1"
  by (simp add: calculatePaybackPeriod_def payback_loop.simps)

section \<open>Internal rate of return: properties\<close>

declare irr_loop.simps [simp del]
declare irr_sums.simps [simp del]







section \<open>Discounting: properties\<close>

declare discountFactors_loop.simps [simp del]

lemma discountFactors_loop_eq:
  "discountFactors_loop years rate i factors =
     factors @ map (\<lambda>k. (1 + rate) ^ k) [i..<nat (years + 1)]"
proof (induction years rate i factors rule: discountFactors_loop.induct)
  case (1 years rate i factors)
  show ?case
  proof (cases "int i \<le> years")
    case True
    then have lt: "i < nat (years + 1)" by linarith
    have "discountFactors_loop years rate i factors =
            discountFactors_loop years rate (i + 1) (factors @ [(1 + rate) ^ i])"
      using True by (subst discountFactors_loop.simps) simp
    also have "\<dots> = (factors @ [(1 + rate) ^ i]) @ map (\<lambda>k. (1 + rate) ^ k) [i + 1..<nat (years + 1)]"
      using "1.IH" [OF True] by simp
    also have "\<dots> = factors @ map (\<lambda>k. (1 + rate) ^ k) [i..<nat (years + 1)]"
      using lt by (simp add: upt_conv_Cons)
    finally show ?thesis .
  next
    case False
    then have "nat (years + 1) \<le> i" by linarith
    with False show ?thesis
      by (subst discountFactors_loop.simps) simp
  qed
qed

lemma calculateDiscountFactors_eq:
  "calculateDiscountFactors years r = map (\<lambda>k. (1 + r / 100) ^ k) [0..<nat years + 1]"
proof -
  have "[0..<nat years + 1] = 0 # [1..<nat (years + 1)]"
    by (cases "0 \<le> years") (simp_all add: upt_conv_Cons nat_add_distrib)
  then show ?thesis
    by (simp add: calculateDiscountFactors_def discountFactors_loop_eq)
qed

lemma length_calculateDiscountFactors:
  "length (calculateDiscountFactors years r) = nat years + 1"
  by (simp add: calculateDiscountFactors_eq)

lemma nth_calculateDiscountFactors:
  "i \<le> nat years \<Longrightarrow> calculateDiscountFactors years r ! i = (1 + r / 100) ^ i"
  by (simp add: calculateDiscountFactors_eq nth_append less_Suc_eq_le del: upt_Suc)

lemma calculateDiscountedCashFlow_Some:
  "length cashflows \<le> length factors \<Longrightarrow>
     calculateDiscountedCashFlow cashflows factors =
       Some (map (\<lambda>i. if factors ! i \<noteq> 0 then cashflows ! i / factors ! i else 0)
               [0..<length cashflows])"
  by (auto simp: calculateDiscountedCashFlow_def Let_def intro!: nth_equalityI)



section \<open>Sorting and net present value\<close>

lemma insert_by_insort_key:
  "insert_by (\<lambda>a b. f b - f a) x xs = insort_key (\<lambda>r. - f r) x xs"
  by (induction xs) simp_all

lemma array_sort_sort_key:
  "array_sort (\<lambda>a b. f b - f a) xs = sort_key (\<lambda>r. - f r) xs"
proof -
  have "insert_by (\<lambda>a b. f b - f a) = insort_key (\<lambda>r. - f r)"
    by (intro ext) (rule insert_by_insort_key)
  then show ?thesis by (simp add: array_sort_def sort_key_def)
qed

lemma array_sort_length: "length (array_sort (\<lambda>a b. f b - f a) xs) = length xs"
  by (simp add: array_sort_sort_key)


lemma array_sort_descending:
  "sorted_wrt (\<lambda>a b. f a \<ge> f b) (array_sort (\<lambda>a b. f b - f a) xs)"
proof -
  have "sorted (map (\<lambda>r. - f r) (sort_key (\<lambda>r. - f r) xs))" by simp
  then show ?thesis
    by (simp add: array_sort_sort_key sorted_map sorted_wrt_iff_nth_less)
qed

lemma array_sort_stable:
  "filter (\<lambda>y. f y = k) (array_sort (\<lambda>a b. f b - f a) xs) = filter (\<lambda>y. f y = k) xs"
  using sort_key_stable [of "\<lambda>r. - f r" "- k" xs] by (simp add: array_sort_sort_key)

lemma calculateNPV_sum_list: "calculateNPV xs = sum_list xs"
proof -
  have "foldl (\<lambda>sum dcf. sum + dcf) a xs = a + sum_list xs" for a :: real
    by (induction xs arbitrary: a) simp_all
  then show ?thesis by (simp add: calculateNPV_def)
qed

lemma pipeline_discounted:
  "calculateDiscountedCashFlow (calculateNetCashFlow d)
       (calculateDiscountFactors (projectYears d) (discountRate d)) =
     Some (map (\<lambda>i. calculateNetCashFlow d ! i / (1 + discountRate d / 100) ^ i)
            [0..<nat (projectYears d) + 1])"
proof -
  have "calculateDiscountedCashFlow (calculateNetCashFlow d)
       (calculateDiscountFactors (projectYears d) (discountRate d)) =
     Some (map (\<lambda>i. if calculateDiscountFactors (projectYears d) (discountRate d) ! i \<noteq> 0
                 then calculateNetCashFlow d ! i / calculateDiscountFactors (projectYears d) (discountRate d) ! i
                 else 0)
            [0..<length (calculateNetCashFlow d)])"
    by (intro calculateDiscountedCashFlow_Some)
       (simp add: length_calculateNetCashFlow length_calculateDiscountFactors)
  also have "\<dots> = Some (map (\<lambda>i. calculateNetCashFlow d ! i / (1 + discountRate d / 100) ^ i)
            [0..<nat (projectYears d) + 1])"
    by (simp add: length_calculateNetCashFlow nth_calculateDiscountFactors less_Suc_eq_le del: upt_Suc)
  finally show ?thesis .
qed

lemma calculateFinancialMetrics_npv:
  "\<exists>m. calculateFinancialMetrics d = Some m \<and> npv m = npv_closed_form d"
  by (simp add: calculateFinancialMetrics_def Let_def pipeline_discounted calculateNPV_sum_list
      npv_closed_form_def del: upt_Suc)

lemma performSensitivityAnalysis_eq:
  "performSensitivityAnalysis data variation =
     Some (array_sort (\<lambda>a b. range_fld b - range_fld a)
       [\<lparr> variable = ''Revenue'',
           npvLow = npv_closed_form (data\<lparr>opexCashIn :=
             map (\<lambda>item. item\<lparr>price := price item * (1 - variation / 100)\<rparr>) (opexCashIn data)\<rparr>),
           npvHigh = npv_closed_form (data\<lparr>opexCashIn :=
             map (\<lambda>item. item\<lparr>price := price item * (1 + variation / 100)\<rparr>) (opexCashIn data)\<rparr>),
           range_fld =
             npv_closed_form (data\<lparr>opexCashIn :=
               map (\<lambda>item. item\<lparr>price := price item * (1 + variation / 100)\<rparr>) (opexCashIn data)\<rparr>)
           - npv_closed_form (data\<lparr>opexCashIn :=
               map (\<lambda>item. item\<lparr>price := price item * (1 - variation / 100)\<rparr>) (opexCashIn data)\<rparr>) \<rparr>,
        \<lparr> variable = ''Operating Costs'',
           npvLow = npv_closed_form (data\<lparr>opexCashOut :=
             map (\<lambda>item. item\<lparr>price := price item * (1 + variation / 100)\<rparr>) (opexCashOut data)\<rparr>),
           npvHigh = npv_closed_form (data\<lparr>opexCashOut :=
             map (\<lambda>item. item\<lparr>price := price item * (1 - variation / 100)\<rparr>) (opexCashOut data)\<rparr>),
           range_fld =
             npv_closed_form (data\<lparr>opexCashOut :=
               map (\<lambda>item. item\<lparr>price := price item * (1 - variation / 100)\<rparr>) (opexCashOut data)\<rparr>)
           - npv_closed_form (data\<lparr>opexCashOut :=
               map (\<lambda>item. item\<lparr>price := price item * (1 + variation / 100)\<rparr>) (opexCashOut data)\<rparr>) \<rparr>,
        \<lparr> variable = ''Initial Investment'',
           npvLow = npv_closed_form (data\<lparr>capexItems :=
             map (\<lambda>item. item\<lparr>price := price item * (1 + variation / 100)\<rparr>) (capexItems data)\<rparr>),
           npvHigh = npv_closed_form (data\<lparr>capexItems :=
             map (\<lambda>item. item\<lparr>price := price item * (1 - variation / 100)\<rparr>) (capexItems data)\<rparr>),
           range_fld =
             npv_closed_form (data\<lparr>capexItems :=
               map (\<lambda>item. item\<lparr>price := price item * (1 - variation / 100)\<rparr>) (capexItems data)\<rparr>)
           - npv_closed_form (data\<lparr>capexItems :=
               map (\<lambda>item. item\<lparr>price := price item * (1 + variation / 100)\<rparr>) (capexItems data)\<rparr>) \<rparr>,
        \<lparr> variable = ''Discount Rate'',
           npvLow = npv_closed_form (data\<lparr>discountRate := discountRate data * (1 + variation / 100)\<rparr>),
           npvHigh = npv_closed_form
             (data\<lparr>discountRate := max 0.1 (discountRate data * (1 - variation / 100))\<rparr>),
           range_fld =
             npv_closed_form
               (data\<lparr>discountRate := max 0.1 (discountRate data * (1 - variation / 100))\<rparr>)
           - npv_closed_form (data\<lparr>discountRate := discountRate data * (1 + variation / 100)\<rparr>) \<rparr>])"
proof -
  have m: "\<exists>m. calculateFinancialMetrics d = Some m \<and> npv m = npv_closed_form d" for d
    by (rule calculateFinancialMetrics_npv)
  obtain m1 where m1: "calculateFinancialMetrics (data\<lparr>opexCashIn :=
             map (\<lambda>item. item\<lparr>price := price item * (1 + variation / 100)\<rparr>) (opexCashIn data)\<rparr>) = Some m1"
      "npv m1 = npv_closed_form (data\<lparr>opexCashIn :=
             map (\<lambda>item. item\<lparr>price := price item * (1 + variation / 100)\<rparr>) (opexCashIn data)\<rparr>)"
    using m by blast
  obtain m2 where m2: "calculateFinancialMetrics (data\<lparr>opexCashIn :=
             map (\<lambda>item. item\<lparr>price := price item * (1 - variation / 100)\<rparr>) (opexCashIn data)\<rparr>) = Some m2"
      "npv m2 = npv_closed_form (data\<lparr>opexCashIn :=
             map (\<lambda>item. item\<lparr>price := price item * (1 - variation / 100)\<rparr>) (opexCashIn data)\<rparr>)"
    using m by blast
  obtain m3 where m3: "calculateFinancialMetrics (data\<lparr>opexCashOut :=
             map (\<lambda>item. item\<lparr>price := price item * (1 + variation / 100)\<rparr>) (opexCashOut data)\<rparr>) = Some m3"
      "npv m3 = npv_closed_form (data\<lparr>opexCashOut :=
             map (\<lambda>item. item\<lparr>price := price item * (1 + variation / 100)\<rparr>) (opexCashOut data)\<rparr>)"
    using m by blast
  obtain m4 where m4: "calculateFinancialMetrics (data\<lparr>opexCashOut :=
             map (\<lambda>item. item\<lparr>price := price item * (1 - variation / 100)\<rparr>) (opexCashOut data)\<rparr>) = Some m4"
      "npv m4 = npv_closed_form (data\<lparr>opexCashOut :=
             map (\<lambda>item. item\<lparr>price := price item * (1 - variation / 100)\<rparr>) (opexCashOut data)\<rparr>)"
    using m by blast
  obtain m5 where m5: "calculateFinancialMetrics (data\<lparr>capexItems :=
             map (\<lambda>item. item\<lparr>price := price item * (1 + variation / 100)\<rparr>) (capexItems data)\<rparr>) = Some m5"
      "npv m5 = npv_closed_form (data\<lparr>capexItems :=
             map (\<lambda>item. item\<lparr>price := price item * (1 + variation / 100)\<rparr>) (capexItems data)\<rparr>)"
    using m by blast
  obtain m6 where m6: "calculateFinancialMetrics (data\<lparr>capexItems :=
             map (\<lambda>item. item\<lparr>price := price item * (1 - variation / 100)\<rparr>) (capexItems data)\<rparr>) = Some m6"
      "npv m6 = npv_closed_form (data\<lparr>capexItems :=
             map (\<lambda>item. item\<lparr>price := price item * (1 - variation / 100)\<rparr>) (capexItems data)\<rparr>)"
    using m by blast
  obtain m7 where m7: "calculateFinancialMetrics
        (data\<lparr>discountRate := discountRate data * (1 + variation / 100)\<rparr>) = Some m7"
      "npv m7 = npv_closed_form (data\<lparr>discountRate := discountRate data * (1 + variation / 100)\<rparr>)"
    using m by blast
  obtain m8 where m8: "calculateFinancialMetrics
        (data\<lparr>discountRate := max 0.1 (discountRate data * (1 - variation / 100))\<rparr>) = Some m8"
      "npv m8 = npv_closed_form
        (data\<lparr>discountRate := max 0.1 (discountRate data * (1 - variation / 100))\<rparr>)"
    using m by blast
  show ?thesis
    unfolding performSensitivityAnalysis_def Let_def pipeline_discounted
    by (simp only: m1 m2 m3 m4 m5 m6 m7 m8 Option.bind.simps append.simps)
qed












section \<open>Sensitivity analysis: properties\<close>

text \<open>
  Claim C4. For every project and variation, \<open>performSensitivityAnalysis\<close> returns
  exactly four records, a rearrangement of the records built in the order Revenue,
  Operating Costs, Initial Investment, Discount Rate, sorted in descending order of
  their range; records of equal range keep that construction order.
\<close>

theorem performSensitivityAnalysis_sorted_stable:
  "\<exists>res rev cost capex rate.
     performSensitivityAnalysis data variation = Some res \<and>
     variable rev = ''Revenue'' \<and> variable cost = ''Operating Costs'' \<and>
     variable capex = ''Initial Investment'' \<and> variable rate = ''Discount Rate'' \<and>
     length res = 4 \<and> mset res = mset [rev, cost, capex, rate] \<and>
     sorted_wrt (\<lambda>a b. range_fld a \<ge> range_fld b) res \<and>
     (\<forall>k. filter (\<lambda>r. range_fld r = k) res = filter (\<lambda>r. range_fld r = k) [rev, cost, capex, rate])"
proof -
  obtain rev cost capex rate where
    res: "performSensitivityAnalysis data variation =
            Some (array_sort (\<lambda>a b. range_fld b - range_fld a) [rev, cost, capex, rate])"
    and names: "variable rev = ''Revenue''" "variable cost = ''Operating Costs''"
      "variable capex = ''Initial Investment''" "variable rate = ''Discount Rate''"
    using performSensitivityAnalysis_eq [of data variation] by simp
  let ?res = "array_sort (\<lambda>a b. range_fld b - range_fld a) [rev, cost, capex, rate]"
  have "length ?res = 4" by (simp add: array_sort_length)
  moreover have "mset ?res = mset [rev, cost, capex, rate]"
    by (simp only: array_sort_sort_key mset_sort)
  moreover have "sorted_wrt (\<lambda>a b. range_fld a \<ge> range_fld b) ?res"
    by (rule array_sort_descending)
  moreover have "\<forall>k. filter (\<lambda>r. range_fld r = k) ?res = filter (\<lambda>r. range_fld r = k) [rev, cost, capex, rate]"
    by (simp only: array_sort_stable) simp
  ultimately show ?thesis using res names by blast
qed





section \<open>The object store: properties\<close>

lemma unchanged_from_refl: "unchanged_from h h"
  by (simp add: unchanged_from_def)

lemma unchanged_from_trans:
  "unchanged_from h1 h2 \<Longrightarrow> unchanged_from h2 h3 \<Longrightarrow> unchanged_from h1 h3"
proof -
  assume a: "unchanged_from h1 h2" "unchanged_from h2 h3"
  then have le: "length h1 \<le> length h2" "length h2 \<le> length h3"
    and eq: "take (length h1) h2 = h1" "take (length h2) h3 = h2"
    by (simp_all add: unchanged_from_def)
  from le have "take (length h1) h3 = take (length h1) (take (length h2) h3)"
    by (simp add: min_def)
  also have "\<dots> = h1" by (simp only: eq)
  finally show ?thesis using le by (simp add: unchanged_from_def)
qed

lemma unchanged_from_append: "unchanged_from h (h @ t)"
  by (simp add: unchanged_from_def)

lemma unchanged_from_nth:
  "unchanged_from h h' \<Longrightarrow> a < length h \<Longrightarrow> h' ! a = h ! a"
  by (metis nth_take unchanged_from_def)

lemma cell_at_unchanged:
  "unchanged_from h h' \<Longrightarrow> cell_at h a = Some c \<Longrightarrow> cell_at h' a = Some c"
  using unchanged_from_nth [of h h' a]
  by (auto simp: cell_at_def unchanged_from_def split: if_splits)

lemma alloc_props:
  "alloc h c = (a, h') \<Longrightarrow>
     a = length h \<and> h' = h @ [c] \<and> unchanged_from h h' \<and> cell_at h' a = Some c"
  by (auto simp: alloc_def unchanged_from_def cell_at_def)

lemma read_item_unchanged:
  "unchanged_from h h' \<Longrightarrow> read_item h a = Some item \<Longrightarrow> read_item h' a = Some item"
  by (auto simp: read_item_def dest: cell_at_unchanged split: option.splits cell.splits)

lemma read_array_unchanged:
  "unchanged_from h h' \<Longrightarrow> read_array h a = Some refs \<Longrightarrow> read_array h' a = Some refs"
  by (auto simp: read_array_def dest: cell_at_unchanged split: option.splits cell.splits)

lemma read_project_unchanged:
  "unchanged_from h h' \<Longrightarrow> read_project h a = Some p \<Longrightarrow> read_project h' a = Some p"
  by (auto simp: read_project_def dest: cell_at_unchanged split: option.splits cell.splits)

lemma read_results_unchanged:
  "unchanged_from h h' \<Longrightarrow> read_results h a = Some rs \<Longrightarrow> read_results h' a = Some rs"
  by (auto simp: read_results_def dest: cell_at_unchanged split: option.splits cell.splits)

lemma read_items_unchanged:
  "unchanged_from h h' \<Longrightarrow> read_items h refs = Some items \<Longrightarrow> read_items h' refs = Some items"
proof (induction refs arbitrary: items)
  case Nil
  then show ?case by simp
next
  case (Cons r rs)
  from Cons.prems(2) obtain item rest where
    r: "read_item h r = Some item" and rs: "read_items h rs = Some rest" and eq: "items = item # rest"
    by (auto split: bind_splits)
  from Cons.prems(1) r have "read_item h' r = Some item" by (rule read_item_unchanged)
  moreover from Cons.IH [OF Cons.prems(1) rs] have "read_items h' rs = Some rest" .
  ultimately show ?case using eq by simp
qed

lemma snapshot_SomeD:
  assumes "snapshot h a = Some d"
  obtains p capexRefs cashInRefs cashOutRefs where
    "read_project h a = Some p"
    "read_array h (capexItems_ref p) = Some capexRefs" "read_items h capexRefs = Some (capexItems d)"
    "read_array h (opexCashIn_ref p) = Some cashInRefs" "read_items h cashInRefs = Some (opexCashIn d)"
    "read_array h (opexCashOut_ref p) = Some cashOutRefs" "read_items h cashOutRefs = Some (opexCashOut d)"
    "projectYears d = projectYears_val p" "discountRate d = discountRate_val p"
    "opexInGrowth d = opexInGrowth_val p" "opexOutGrowth d = opexOutGrowth_val p"
  using assms unfolding snapshot_def by (auto split: bind_splits)

lemma snapshot_SomeI:
  assumes "read_project h a = Some p"
    "read_array h (capexItems_ref p) = Some capexRefs" "read_items h capexRefs = Some capex"
    "read_array h (opexCashIn_ref p) = Some cashInRefs" "read_items h cashInRefs = Some cashIn"
    "read_array h (opexCashOut_ref p) = Some cashOutRefs" "read_items h cashOutRefs = Some cashOut"
  shows "snapshot h a = Some \<lparr> capexItems = capex, opexCashIn = cashIn, opexCashOut = cashOut,
            projectYears = projectYears_val p, discountRate = discountRate_val p,
            opexInGrowth = opexInGrowth_val p, opexOutGrowth = opexOutGrowth_val p \<rparr>"
  using assms by (simp add: snapshot_def)

lemma snapshot_unchanged:
  assumes "unchanged_from h h'" "snapshot h a = Some d"
  shows "snapshot h' a = Some d"
proof -
  from assms(2) obtain p capexRefs cashInRefs cashOutRefs where r:
    "read_project h a = Some p"
    "read_array h (capexItems_ref p) = Some capexRefs" "read_items h capexRefs = Some (capexItems d)"
    "read_array h (opexCashIn_ref p) = Some cashInRefs" "read_items h cashInRefs = Some (opexCashIn d)"
    "read_array h (opexCashOut_ref p) = Some cashOutRefs" "read_items h cashOutRefs = Some (opexCashOut d)"
    and v: "projectYears d = projectYears_val p" "discountRate d = discountRate_val p"
    "opexInGrowth d = opexInGrowth_val p" "opexOutGrowth d = opexOutGrowth_val p"
    by (rule snapshot_SomeD)
  have "snapshot h' a = Some \<lparr> capexItems = capexItems d, opexCashIn = opexCashIn d,
            opexCashOut = opexCashOut d,
            projectYears = projectYears_val p, discountRate = discountRate_val p,
            opexInGrowth = opexInGrowth_val p, opexOutGrowth = opexOutGrowth_val p \<rparr>"
    by (rule snapshot_SomeI [OF read_project_unchanged [OF assms(1) r(1)]
          read_array_unchanged [OF assms(1) r(2)] read_items_unchanged [OF assms(1) r(3)]
          read_array_unchanged [OF assms(1) r(4)] read_items_unchanged [OF assms(1) r(5)]
          read_array_unchanged [OF assms(1) r(6)] read_items_unchanged [OF assms(1) r(7)]])
  with v show ?thesis by simp
qed

lemma map_price_h_ok:
  "read_items h refs = Some items \<Longrightarrow>
     \<exists>refs' h'. map_price_h h k refs = Some (refs', h') \<and> unchanged_from h h' \<and>
       read_items h' refs' = Some (map (\<lambda>item. item\<lparr>price := price item * k\<rparr>) items)"
proof (induction refs arbitrary: h items)
  case Nil
  then show ?case by (simp add: unchanged_from_refl)
next
  case (Cons r rs)
  from Cons.prems obtain item rest where
    r: "read_item h r = Some item" and rs: "read_items h rs = Some rest" and eq: "items = item # rest"
    by (auto split: bind_splits)
  define h1 where "h1 = h @ [ItemCell (item\<lparr>price := price item * k\<rparr>)]"
  have a: "alloc h (ItemCell (item\<lparr>price := price item * k\<rparr>)) = (length h, h1)"
    by (simp add: alloc_def h1_def)
  have u1: "unchanged_from h h1" by (simp add: h1_def unchanged_from_append)
  have new: "read_item h1 (length h) = Some (item\<lparr>price := price item * k\<rparr>)"
    by (simp add: read_item_def cell_at_def h1_def)
  from read_items_unchanged [OF u1 rs] have "read_items h1 rs = Some rest" .
  from Cons.IH [OF this] obtain refs' h' where
    m: "map_price_h h1 k rs = Some (refs', h')" and u2: "unchanged_from h1 h'"
    and its: "read_items h' refs' = Some (map (\<lambda>item. item\<lparr>price := price item * k\<rparr>) rest)"
    by blast
  have "map_price_h h k (r # rs) = Some (length h # refs', h')"
    by (simp add: r a m)
  moreover have "unchanged_from h h'" using u1 u2 by (rule unchanged_from_trans)
  moreover have "read_items h' (length h # refs') =
      Some (map (\<lambda>item. item\<lparr>price := price item * k\<rparr>) items)"
    using read_item_unchanged [OF u2 new] its eq by simp
  ultimately show ?case by blast
qed

lemma spread_opexCashIn_h_ok:
  assumes "snapshot h data = Some d"
  shows "\<exists>a h'. spread_opexCashIn_h h data k = Some (a, h') \<and> unchanged_from h h' \<and>
           snapshot h' a =
             Some (d\<lparr>opexCashIn := map (\<lambda>item. item\<lparr>price := price item * k\<rparr>) (opexCashIn d)\<rparr>)"
proof -
  from assms obtain p capexRefs cashInRefs cashOutRefs where r:
    "read_project h data = Some p"
    "read_array h (capexItems_ref p) = Some capexRefs" "read_items h capexRefs = Some (capexItems d)"
    "read_array h (opexCashIn_ref p) = Some cashInRefs" "read_items h cashInRefs = Some (opexCashIn d)"
    "read_array h (opexCashOut_ref p) = Some cashOutRefs" "read_items h cashOutRefs = Some (opexCashOut d)"
    and v: "projectYears d = projectYears_val p" "discountRate d = discountRate_val p"
    "opexInGrowth d = opexInGrowth_val p" "opexOutGrowth d = opexOutGrowth_val p"
    by (rule snapshot_SomeD)
  from map_price_h_ok [OF r(5), of k] obtain refs' h1 where
    m: "map_price_h h k cashInRefs = Some (refs', h1)" and u1: "unchanged_from h h1"
    and its: "read_items h1 refs' = Some (map (\<lambda>item. item\<lparr>price := price item * k\<rparr>) (opexCashIn d))"
    by blast
  define h2 where "h2 = h1 @ [ItemsCell refs']"
  define p' where "p' = p\<lparr>opexCashIn_ref := length h1\<rparr>"
  define h3 where "h3 = h2 @ [ProjectCell p']"
  have u2: "unchanged_from h1 h2" unfolding h2_def by (rule unchanged_from_append)
  have u3: "unchanged_from h2 h3" unfolding h3_def by (rule unchanged_from_append)
  have u13: "unchanged_from h1 h3" using u2 u3 by (rule unchanged_from_trans)
  have u03: "unchanged_from h h3" using u1 u13 by (rule unchanged_from_trans)
  have call: "spread_opexCashIn_h h data k = Some (length h2, h3)"
    by (simp add: spread_opexCashIn_h_def r m alloc_def h2_def h3_def p'_def)
  have proj: "read_project h3 (length h2) = Some p'"
    by (simp add: read_project_def cell_at_def h3_def)
  have arr: "read_array h3 (length h1) = Some refs'"
    by (simp add: read_array_def cell_at_def h3_def h2_def nth_append)
  have "snapshot h3 (length h2) =
      Some \<lparr> capexItems = capexItems d, opexCashIn = map (\<lambda>item. item\<lparr>price := price item * k\<rparr>) (opexCashIn d), opexCashOut = opexCashOut d,
             projectYears = projectYears_val p', discountRate = discountRate_val p',
             opexInGrowth = opexInGrowth_val p', opexOutGrowth = opexOutGrowth_val p' \<rparr>"
  proof (rule snapshot_SomeI [OF proj])
    show "read_array h3 (capexItems_ref p') = Some capexRefs"
      using read_array_unchanged [OF u03 r(2)] by (simp add: p'_def)
    show "read_items h3 capexRefs = Some (capexItems d)"
      using u03 r(3) by (rule read_items_unchanged)
    show "read_array h3 (opexCashIn_ref p') = Some refs'"
      using arr by (simp add: p'_def)
    show "read_items h3 refs' = Some (map (\<lambda>item. item\<lparr>price := price item * k\<rparr>) (opexCashIn d))"
      using u13 its by (rule read_items_unchanged)
    show "read_array h3 (opexCashOut_ref p') = Some cashOutRefs"
      using read_array_unchanged [OF u03 r(6)] by (simp add: p'_def)
    show "read_items h3 cashOutRefs = Some (opexCashOut d)"
      using u03 r(7) by (rule read_items_unchanged)
  qed
  also have "\<dots> = Some (d\<lparr>opexCashIn := map (\<lambda>item. item\<lparr>price := price item * k\<rparr>) (opexCashIn d)\<rparr>)"
    by (simp add: v p'_def)
  finally show ?thesis using call u03 by blast
qed

lemma spread_opexCashOut_h_ok:
  assumes "snapshot h data = Some d"
  shows "\<exists>a h'. spread_opexCashOut_h h data k = Some (a, h') \<and> unchanged_from h h' \<and>
           snapshot h' a =
             Some (d\<lparr>opexCashOut := map (\<lambda>item. item\<lparr>price := price item * k\<rparr>) (opexCashOut d)\<rparr>)"
proof -
  from assms obtain p capexRefs cashInRefs cashOutRefs where r:
    "read_project h data = Some p"
    "read_array h (capexItems_ref p) = Some capexRefs" "read_items h capexRefs = Some (capexItems d)"
    "read_array h (opexCashIn_ref p) = Some cashInRefs" "read_items h cashInRefs = Some (opexCashIn d)"
    "read_array h (opexCashOut_ref p) = Some cashOutRefs" "read_items h cashOutRefs = Some (opexCashOut d)"
    and v: "projectYears d = projectYears_val p" "discountRate d = discountRate_val p"
    "opexInGrowth d = opexInGrowth_val p" "opexOutGrowth d = opexOutGrowth_val p"
    by (rule snapshot_SomeD)
  from map_price_h_ok [OF r(7), of k] obtain refs' h1 where
    m: "map_price_h h k cashOutRefs = Some (refs', h1)" and u1: "unchanged_from h h1"
    and its: "read_items h1 refs' = Some (map (\<lambda>item. item\<lparr>price := price item * k\<rparr>) (opexCashOut d))"
    by blast
  define h2 where "h2 = h1 @ [ItemsCell refs']"
  define p' where "p' = p\<lparr>opexCashOut_ref := length h1\<rparr>"
  define h3 where "h3 = h2 @ [ProjectCell p']"
  have u2: "unchanged_from h1 h2" unfolding h2_def by (rule unchanged_from_append)
  have u3: "unchanged_from h2 h3" unfolding h3_def by (rule unchanged_from_append)
  have u13: "unchanged_from h1 h3" using u2 u3 by (rule unchanged_from_trans)
  have u03: "unchanged_from h h3" using u1 u13 by (rule unchanged_from_trans)
  have call: "spread_opexCashOut_h h data k = Some (length h2, h3)"
    by (simp add: spread_opexCashOut_h_def r m alloc_def h2_def h3_def p'_def)
  have proj: "read_project h3 (length h2) = Some p'"
    by (simp add: read_project_def cell_at_def h3_def)
  have arr: "read_array h3 (length h1) = Some refs'"
    by (simp add: read_array_def cell_at_def h3_def h2_def nth_append)
  have "snapshot h3 (length h2) =
      Some \<lparr> capexItems = capexItems d, opexCashIn = opexCashIn d, opexCashOut = map (\<lambda>item. item\<lparr>price := price item * k\<rparr>) (opexCashOut d),
             projectYears = projectYears_val p', discountRate = discountRate_val p',
             opexInGrowth = opexInGrowth_val p', opexOutGrowth = opexOutGrowth_val p' \<rparr>"
  proof (rule snapshot_SomeI [OF proj])
    show "read_array h3 (capexItems_ref p') = Some capexRefs"
      using read_array_unchanged [OF u03 r(2)] by (simp add: p'_def)
    show "read_items h3 capexRefs = Some (capexItems d)"
      using u03 r(3) by (rule read_items_unchanged)
    show "read_array h3 (opexCashIn_ref p') = Some cashInRefs"
      using read_array_unchanged [OF u03 r(4)] by (simp add: p'_def)
    show "read_items h3 cashInRefs = Some (opexCashIn d)"
      using u03 r(5) by (rule read_items_unchanged)
    show "read_array h3 (opexCashOut_ref p') = Some refs'"
      using arr by (simp add: p'_def)
    show "read_items h3 refs' = Some (map (\<lambda>item. item\<lparr>price := price item * k\<rparr>) (opexCashOut d))"
      using u13 its by (rule read_items_unchanged)
  qed
  also have "\<dots> = Some (d\<lparr>opexCashOut := map (\<lambda>item. item\<lparr>price := price item * k\<rparr>) (opexCashOut d)\<rparr>)"
    by (simp add: v p'_def)
  finally show ?thesis using call u03 by blast
qed

lemma spread_capexItems_h_ok:
  assumes "snapshot h data = Some d"
  shows "\<exists>a h'. spread_capexItems_h h data k = Some (a, h') \<and> unchanged_from h h' \<and>
           snapshot h' a =
             Some (d\<lparr>capexItems := map (\<lambda>item. item\<lparr>price := price item * k\<rparr>) (capexItems d)\<rparr>)"
proof -
  from assms obtain p capexRefs cashInRefs cashOutRefs where r:
    "read_project h data = Some p"
    "read_array h (capexItems_ref p) = Some capexRefs" "read_items h capexRefs = Some (capexItems d)"
    "read_array h (opexCashIn_ref p) = Some cashInRefs" "read_items h cashInRefs = Some (opexCashIn d)"
    "read_array h (opexCashOut_ref p) = Some cashOutRefs" "read_items h cashOutRefs = Some (opexCashOut d)"
    and v: "projectYears d = projectYears_val p" "discountRate d = discountRate_val p"
    "opexInGrowth d = opexInGrowth_val p" "opexOutGrowth d = opexOutGrowth_val p"
    by (rule snapshot_SomeD)
  from map_price_h_ok [OF r(3), of k] obtain refs' h1 where
    m: "map_price_h h k capexRefs = Some (refs', h1)" and u1: "unchanged_from h h1"
    and its: "read_items h1 refs' = Some (map (\<lambda>item. item\<lparr>price := price item * k\<rparr>) (capexItems d))"
    by blast
  define h2 where "h2 = h1 @ [ItemsCell refs']"
  define p' where "p' = p\<lparr>capexItems_ref := length h1\<rparr>"
  define h3 where "h3 = h2 @ [ProjectCell p']"
  have u2: "unchanged_from h1 h2" unfolding h2_def by (rule unchanged_from_append)
  have u3: "unchanged_from h2 h3" unfolding h3_def by (rule unchanged_from_append)
  have u13: "unchanged_from h1 h3" using u2 u3 by (rule unchanged_from_trans)
  have u03: "unchanged_from h h3" using u1 u13 by (rule unchanged_from_trans)
  have call: "spread_capexItems_h h data k = Some (length h2, h3)"
    by (simp add: spread_capexItems_h_def r m alloc_def h2_def h3_def p'_def)
  have proj: "read_project h3 (length h2) = Some p'"
    by (simp add: read_project_def cell_at_def h3_def)
  have arr: "read_array h3 (length h1) = Some refs'"
    by (simp add: read_array_def cell_at_def h3_def h2_def nth_append)
  have "snapshot h3 (length h2) =
      Some \<lparr> capexItems = map (\<lambda>item. item\<lparr>price := price item * k\<rparr>) (capexItems d), opexCashIn = opexCashIn d, opexCashOut = opexCashOut d,
             projectYears = projectYears_val p', discountRate = discountRate_val p',
             opexInGrowth = opexInGrowth_val p', opexOutGrowth = opexOutGrowth_val p' \<rparr>"
  proof (rule snapshot_SomeI [OF proj])
    show "read_array h3 (capexItems_ref p') = Some refs'"
      using arr by (simp add: p'_def)
    show "read_items h3 refs' = Some (map (\<lambda>item. item\<lparr>price := price item * k\<rparr>) (capexItems d))"
      using u13 its by (rule read_items_unchanged)
    show "read_array h3 (opexCashIn_ref p') = Some cashInRefs"
      using read_array_unchanged [OF u03 r(4)] by (simp add: p'_def)
    show "read_items h3 cashInRefs = Some (opexCashIn d)"
      using u03 r(5) by (rule read_items_unchanged)
    show "read_array h3 (opexCashOut_ref p') = Some cashOutRefs"
      using read_array_unchanged [OF u03 r(6)] by (simp add: p'_def)
    show "read_items h3 cashOutRefs = Some (opexCashOut d)"
      using u03 r(7) by (rule read_items_unchanged)
  qed
  also have "\<dots> = Some (d\<lparr>capexItems := map (\<lambda>item. item\<lparr>price := price item * k\<rparr>) (capexItems d)\<rparr>)"
    by (simp add: v p'_def)
  finally show ?thesis using call u03 by blast
qed

lemma spread_discountRate_h_ok:
  assumes "snapshot h data = Some d"
  shows "\<exists>a h'. spread_discountRate_h h data f = Some (a, h') \<and> unchanged_from h h' \<and>
           snapshot h' a = Some (d\<lparr>discountRate := f (discountRate d)\<rparr>)"
proof -
  from assms obtain p capexRefs cashInRefs cashOutRefs where r:
    "read_project h data = Some p"
    "read_array h (capexItems_ref p) = Some capexRefs" "read_items h capexRefs = Some (capexItems d)"
    "read_array h (opexCashIn_ref p) = Some cashInRefs" "read_items h cashInRefs = Some (opexCashIn d)"
    "read_array h (opexCashOut_ref p) = Some cashOutRefs" "read_items h cashOutRefs = Some (opexCashOut d)"
    and v: "projectYears d = projectYears_val p" "discountRate d = discountRate_val p"
    "opexInGrowth d = opexInGrowth_val p" "opexOutGrowth d = opexOutGrowth_val p"
    by (rule snapshot_SomeD)
  define p' where "p' = p\<lparr>discountRate_val := f (discountRate_val p)\<rparr>"
  define h1 where "h1 = h @ [ProjectCell p']"
  have u: "unchanged_from h h1" by (simp add: h1_def unchanged_from_append)
  have call: "spread_discountRate_h h data f = Some (length h, h1)"
    by (simp add: spread_discountRate_h_def r alloc_def h1_def p'_def)
  have proj: "read_project h1 (length h) = Some p'"
    by (simp add: read_project_def cell_at_def h1_def)
  have "snapshot h1 (length h) =
      Some \<lparr> capexItems = capexItems d, opexCashIn = opexCashIn d, opexCashOut = opexCashOut d,
             projectYears = projectYears_val p', discountRate = discountRate_val p',
             opexInGrowth = opexInGrowth_val p', opexOutGrowth = opexOutGrowth_val p' \<rparr>"
  proof (rule snapshot_SomeI [OF proj])
    show "read_array h1 (capexItems_ref p') = Some capexRefs"
      using read_array_unchanged [OF u r(2)] by (simp add: p'_def)
    show "read_items h1 capexRefs = Some (capexItems d)"
      using u r(3) by (rule read_items_unchanged)
    show "read_array h1 (opexCashIn_ref p') = Some cashInRefs"
      using read_array_unchanged [OF u r(4)] by (simp add: p'_def)
    show "read_items h1 cashInRefs = Some (opexCashIn d)"
      using u r(5) by (rule read_items_unchanged)
    show "read_array h1 (opexCashOut_ref p') = Some cashOutRefs"
      using read_array_unchanged [OF u r(6)] by (simp add: p'_def)
    show "read_items h1 cashOutRefs = Some (opexCashOut d)"
      using u r(7) by (rule read_items_unchanged)
  qed
  also have "\<dots> = Some (d\<lparr>discountRate := f (discountRate d)\<rparr>)"
    by (simp add: v p'_def)
  finally show ?thesis using call u by blast
qed

text \<open>Updating the results array in place touches no cell of another kind.\<close>

lemma results_update_reads:
  assumes "read_results h a = Some rs"
  shows "read_item (h[a := ResultsCell rs']) b = read_item h b"
    and "read_array (h[a := ResultsCell rs']) b = read_array h b"
    and "read_project (h[a := ResultsCell rs']) b = read_project h b"
    and "read_results (h[a := ResultsCell rs']) a = Some rs'"
    and "overwrite h a (ResultsCell rs') = Some (h[a := ResultsCell rs'])"
  using assms
  by (auto simp: read_item_def read_array_def read_project_def read_results_def cell_at_def
      overwrite_def nth_list_update split: option.splits cell.splits if_splits)

lemma results_update_read_items:
  assumes "read_results h a = Some rs"
  shows "read_items (h[a := ResultsCell rs']) refs = read_items h refs"
  by (induction refs) (simp_all add: results_update_reads(1) [OF assms])

lemma results_update_snapshot:
  assumes "read_results h a = Some rs"
  shows "snapshot (h[a := ResultsCell rs']) b = snapshot h b"
  by (simp add: snapshot_def results_update_reads(2,3) [OF assms] results_update_read_items [OF assms])

lemma results_update_unchanged:
  assumes "unchanged_from h0 h" "length h0 \<le> a"
  shows "unchanged_from h0 (h[a := c])"
  using assms by (simp add: unchanged_from_def)

lemma calculateFinancialMetrics_h_npv:
  assumes "snapshot h a = Some d"
  shows "\<exists>m. calculateFinancialMetrics_h h a = Some m \<and> npv m = npv_closed_form d"
  using calculateFinancialMetrics_npv [of d] assms by (simp add: calculateFinancialMetrics_h_def)

lemma scenario_block:
  assumes inv: "unchanged_from h0 h" "length h0 \<le> results" "snapshot h data = Some d"
      "read_results h results = Some rs"
    and sp1: "\<And>h. snapshot h data = Some d \<Longrightarrow>
        \<exists>a h'. spA h = Some (a, h') \<and> unchanged_from h h' \<and> snapshot h' a = Some (fA d)"
    and sp2: "\<And>h. snapshot h data = Some d \<Longrightarrow>
        \<exists>a h'. spB h = Some (a, h') \<and> unchanged_from h h' \<and> snapshot h' a = Some (fB d)"
  obtains a1 h1 a2 h2 m1 m2 where
    "spA h = Some (a1, h1)" "spB h1 = Some (a2, h2)"
    "calculateFinancialMetrics_h h2 a1 = Some m1" "npv m1 = npv_closed_form (fA d)"
    "calculateFinancialMetrics_h h2 a2 = Some m2" "npv m2 = npv_closed_form (fB d)"
    "\<And>r. push_h h2 results r = Some (h2[results := ResultsCell (rs @ [r])])"
    "\<And>r. unchanged_from h0 (h2[results := ResultsCell (rs @ [r])])"
    "\<And>r. snapshot (h2[results := ResultsCell (rs @ [r])]) data = Some d"
    "\<And>r. read_results (h2[results := ResultsCell (rs @ [r])]) results = Some (rs @ [r])"
proof -
  from sp1 [OF inv(3)] obtain a1 h1 where
    c1: "spA h = Some (a1, h1)" and u1: "unchanged_from h h1" and s1: "snapshot h1 a1 = Some (fA d)"
    by blast
  from u1 inv(3) have d1: "snapshot h1 data = Some d" by (rule snapshot_unchanged)
  from sp2 [OF d1] obtain a2 h2 where
    c2: "spB h1 = Some (a2, h2)" and u2: "unchanged_from h1 h2" and s2: "snapshot h2 a2 = Some (fB d)"
    by blast
  from u2 d1 have d2: "snapshot h2 data = Some d" by (rule snapshot_unchanged)
  from u2 s1 have s1': "snapshot h2 a1 = Some (fA d)" by (rule snapshot_unchanged)
  have u02: "unchanged_from h0 h2"
    using inv(1) u1 u2 by (blast intro: unchanged_from_trans)
  have rr: "read_results h2 results = Some rs"
    using u1 u2 inv(4) by (blast intro: read_results_unchanged)
  from calculateFinancialMetrics_h_npv [OF s1'] obtain m1 where
    m1: "calculateFinancialMetrics_h h2 a1 = Some m1" "npv m1 = npv_closed_form (fA d)" by blast
  from calculateFinancialMetrics_h_npv [OF s2] obtain m2 where
    m2: "calculateFinancialMetrics_h h2 a2 = Some m2" "npv m2 = npv_closed_form (fB d)" by blast
  have p: "push_h h2 results r = Some (h2[results := ResultsCell (rs @ [r])])" for r
    by (simp add: push_h_def rr results_update_reads(5) [OF rr])
  have pu: "unchanged_from h0 (h2[results := ResultsCell (rs @ [r])])" for r
    using u02 inv(2) by (rule results_update_unchanged)
  have ps: "snapshot (h2[results := ResultsCell (rs @ [r])]) data = Some d" for r
    by (simp add: results_update_snapshot [OF rr] d2)
  have pr: "read_results (h2[results := ResultsCell (rs @ [r])]) results = Some (rs @ [r])" for r
    by (rule results_update_reads(4) [OF rr])
  from c1 c2 m1 m2 p pu ps pr show thesis by (rule that)
qed

lemma performSensitivityAnalysis_h_refines:
  assumes d: "snapshot h data = Some d"
  shows "\<exists>results h' res.
           performSensitivityAnalysis_h h data variation = Some (results, h') \<and>
           unchanged_from h h' \<and> snapshot h' data = Some d \<and>
           performSensitivityAnalysis d variation = Some res \<and>
           read_results h' results = Some res"
proof -
  let ?v = "variation / 100"
  define hA where "hA = h @ [ResultsCell []]"
  define results where "results = length h"
  have al: "alloc h (ResultsCell []) = (results, hA)"
    by (simp add: alloc_def hA_def results_def)
  have uA: "unchanged_from h hA" unfolding hA_def by (rule unchanged_from_append)
  have i0: "unchanged_from h hA" "length h \<le> results" "snapshot hA data = Some d"
      "read_results hA results = Some []"
    using uA snapshot_unchanged [OF uA d]
    by (simp_all add: hA_def results_def read_results_def cell_at_def)
  obtain a1 h1 a2 h2 m1 m2 where b1:
    "spread_opexCashIn_h hA data (1 + ?v) = Some (a1, h1)"
    "spread_opexCashIn_h h1 data (1 - ?v) = Some (a2, h2)"
    "calculateFinancialMetrics_h h2 a1 = Some m1"
    "npv m1 = npv_closed_form (d\<lparr>opexCashIn :=
        map (\<lambda>item. item\<lparr>price := price item * (1 + ?v)\<rparr>) (opexCashIn d)\<rparr>)"
    "calculateFinancialMetrics_h h2 a2 = Some m2"
    "npv m2 = npv_closed_form (d\<lparr>opexCashIn :=
        map (\<lambda>item. item\<lparr>price := price item * (1 - ?v)\<rparr>) (opexCashIn d)\<rparr>)"
    "\<And>r. push_h h2 results r = Some (h2[results := ResultsCell ([] @ [r])])"
    "\<And>r. unchanged_from h (h2[results := ResultsCell ([] @ [r])])"
    "\<And>r. snapshot (h2[results := ResultsCell ([] @ [r])]) data = Some d"
    "\<And>r. read_results (h2[results := ResultsCell ([] @ [r])]) results = Some ([] @ [r])"
    by (rule scenario_block [where
          spA = "\<lambda>h. spread_opexCashIn_h h data (1 + ?v)" and spB = "\<lambda>h. spread_opexCashIn_h h data (1 - ?v)", OF i0])
       (rule spread_opexCashIn_h_ok, assumption, rule spread_opexCashIn_h_ok, assumption, rule that)
  define r1 where "r1 = \<lparr> variable = ''Revenue'', npvLow = npv m2, npvHigh = npv m1,
      range_fld = npv m1 - npv m2 \<rparr>"
  define hB where "hB = h2[results := ResultsCell ([] @ [r1])]"
  have i1: "unchanged_from h hB" "length h \<le> results" "snapshot hB data = Some d"
      "read_results hB results = Some [r1]"
    using b1(8-10) [of r1] i0(2) by (simp_all add: hB_def)
  obtain a3 h3 a4 h4 m3 m4 where b2:
    "spread_opexCashOut_h hB data (1 + ?v) = Some (a3, h3)"
    "spread_opexCashOut_h h3 data (1 - ?v) = Some (a4, h4)"
    "calculateFinancialMetrics_h h4 a3 = Some m3"
    "npv m3 = npv_closed_form (d\<lparr>opexCashOut :=
        map (\<lambda>item. item\<lparr>price := price item * (1 + ?v)\<rparr>) (opexCashOut d)\<rparr>)"
    "calculateFinancialMetrics_h h4 a4 = Some m4"
    "npv m4 = npv_closed_form (d\<lparr>opexCashOut :=
        map (\<lambda>item. item\<lparr>price := price item * (1 - ?v)\<rparr>) (opexCashOut d)\<rparr>)"
    "\<And>r. push_h h4 results r = Some (h4[results := ResultsCell ([r1] @ [r])])"
    "\<And>r. unchanged_from h (h4[results := ResultsCell ([r1] @ [r])])"
    "\<And>r. snapshot (h4[results := ResultsCell ([r1] @ [r])]) data = Some d"
    "\<And>r. read_results (h4[results := ResultsCell ([r1] @ [r])]) results = Some ([r1] @ [r])"
    by (rule scenario_block [where
          spA = "\<lambda>h. spread_opexCashOut_h h data (1 + ?v)" and spB = "\<lambda>h. spread_opexCashOut_h h data (1 - ?v)", OF i1])
       (rule spread_opexCashOut_h_ok, assumption, rule spread_opexCashOut_h_ok, assumption, rule that)
  define r2 where "r2 = \<lparr> variable = ''Operating Costs'', npvLow = npv m3, npvHigh = npv m4,
      range_fld = npv m4 - npv m3 \<rparr>"
  define hC where "hC = h4[results := ResultsCell ([r1] @ [r2])]"
  have i2: "unchanged_from h hC" "length h \<le> results" "snapshot hC data = Some d"
      "read_results hC results = Some [r1, r2]"
    using b2(8-10) [of r2] i0(2) by (simp_all add: hC_def)
  obtain a5 h5 a6 h6 m5 m6 where b3:
    "spread_capexItems_h hC data (1 + ?v) = Some (a5, h5)"
    "spread_capexItems_h h5 data (1 - ?v) = Some (a6, h6)"
    "calculateFinancialMetrics_h h6 a5 = Some m5"
    "npv m5 = npv_closed_form (d\<lparr>capexItems :=
        map (\<lambda>item. item\<lparr>price := price item * (1 + ?v)\<rparr>) (capexItems d)\<rparr>)"
    "calculateFinancialMetrics_h h6 a6 = Some m6"
    "npv m6 = npv_closed_form (d\<lparr>capexItems :=
        map (\<lambda>item. item\<lparr>price := price item * (1 - ?v)\<rparr>) (capexItems d)\<rparr>)"
    "\<And>r. push_h h6 results r = Some (h6[results := ResultsCell ([r1, r2] @ [r])])"
    "\<And>r. unchanged_from h (h6[results := ResultsCell ([r1, r2] @ [r])])"
    "\<And>r. snapshot (h6[results := ResultsCell ([r1, r2] @ [r])]) data = Some d"
    "\<And>r. read_results (h6[results := ResultsCell ([r1, r2] @ [r])]) results = Some ([r1, r2] @ [r])"
    by (rule scenario_block [where
          spA = "\<lambda>h. spread_capexItems_h h data (1 + ?v)" and spB = "\<lambda>h. spread_capexItems_h h data (1 - ?v)", OF i2])
       (rule spread_capexItems_h_ok, assumption, rule spread_capexItems_h_ok, assumption, rule that)
  define r3 where "r3 = \<lparr> variable = ''Initial Investment'', npvLow = npv m5, npvHigh = npv m6,
      range_fld = npv m6 - npv m5 \<rparr>"
  define hD where "hD = h6[results := ResultsCell ([r1, r2] @ [r3])]"
  have i3: "unchanged_from h hD" "length h \<le> results" "snapshot hD data = Some d"
      "read_results hD results = Some [r1, r2, r3]"
    using b3(8-10) [of r3] i0(2) by (simp_all add: hD_def)
  obtain a7 h7 a8 h8 m7 m8 where b4:
    "spread_discountRate_h hD data (\<lambda>rate. rate * (1 + ?v)) = Some (a7, h7)"
    "spread_discountRate_h h7 data (\<lambda>rate. max 0.1 (rate * (1 - ?v))) = Some (a8, h8)"
    "calculateFinancialMetrics_h h8 a7 = Some m7"
    "npv m7 = npv_closed_form (d\<lparr>discountRate := discountRate d * (1 + ?v)\<rparr>)"
    "calculateFinancialMetrics_h h8 a8 = Some m8"
    "npv m8 = npv_closed_form (d\<lparr>discountRate := max 0.1 (discountRate d * (1 - ?v))\<rparr>)"
    "\<And>r. push_h h8 results r = Some (h8[results := ResultsCell ([r1, r2, r3] @ [r])])"
    "\<And>r. unchanged_from h (h8[results := ResultsCell ([r1, r2, r3] @ [r])])"
    "\<And>r. snapshot (h8[results := ResultsCell ([r1, r2, r3] @ [r])]) data = Some d"
    "\<And>r. read_results (h8[results := ResultsCell ([r1, r2, r3] @ [r])]) results = Some ([r1, r2, r3] @ [r])"
    by (rule scenario_block [where
          spA = "\<lambda>h. spread_discountRate_h h data (\<lambda>rate. rate * (1 + ?v))" and
          spB = "\<lambda>h. spread_discountRate_h h data (\<lambda>rate. max 0.1 (rate * (1 - ?v)))", OF i3])
       (rule spread_discountRate_h_ok, assumption, rule spread_discountRate_h_ok, assumption, rule that)
  define r4 where "r4 = \<lparr> variable = ''Discount Rate'', npvLow = npv m7, npvHigh = npv m8,
      range_fld = npv m8 - npv m7 \<rparr>"
  define hE where "hE = h8[results := ResultsCell ([r1, r2, r3] @ [r4])]"
  have i4: "unchanged_from h hE" "length h \<le> results" "snapshot hE data = Some d"
      "read_results hE results = Some [r1, r2, r3, r4]"
    using b4(8-10) [of r4] i0(2) by (simp_all add: hE_def)
  let ?sorted = "array_sort (\<lambda>a b. range_fld b - range_fld a) [r1, r2, r3, r4]"
  define hF where "hF = hE[results := ResultsCell ?sorted]"
  have srt: "sort_h hE results (\<lambda>a b. range_fld b - range_fld a) = Some hF"
    by (simp add: sort_h_def i4(4) results_update_reads(5) [OF i4(4)] hF_def)
  have fin: "unchanged_from h hF" "snapshot hF data = Some d" "read_results hF results = Some ?sorted"
    unfolding hF_def
    using results_update_unchanged [OF i4(1,2)] results_update_snapshot [OF i4(4)] i4(3)
      results_update_reads(4) [OF i4(4)]
    by simp_all
  have call: "performSensitivityAnalysis_h h data variation = Some (results, hF)"
    unfolding performSensitivityAnalysis_h_def Let_def
    by (simp only: d pipeline_discounted al b1(1-3,5) b2(1-3,5) b3(1-3,5) b4(1-3,5)
        b1(7) b2(7) b3(7) b4(7) Option.bind.simps prod.case
        r1_def [symmetric] hB_def [symmetric] r2_def [symmetric] hC_def [symmetric]
        r3_def [symmetric] hD_def [symmetric] r4_def [symmetric] hE_def [symmetric] srt)
  have pure_eq: "performSensitivityAnalysis d variation = Some ?sorted"
    by (simp only: performSensitivityAnalysis_eq r1_def r2_def r3_def r4_def
        b1(4,6) b2(4,6) b3(4,6) b4(4,6))
  from call fin pure_eq show ?thesis by blast
qed

section \<open>Frame and determinism\<close>

text \<open>
  Claim C7. \<open>performSensitivityAnalysis\<close> leaves its argument unmodified. On a store in
  which the argument is a well-formed project object the call returns, every cell that
  existed before the call holds the same value afterwards (the project object, its
  three arrays and every item among them), so the argument reads back field by field
  and item by item as before; the scenarios are new objects, and the only cell updated
  in place is the results array, created by the call. The array holds what the function
  on values returns.
\<close>

theorem performSensitivityAnalysis_leaves_input:
  "snapshot h data = Some d \<longrightarrow>
     (\<exists>results h'.
        performSensitivityAnalysis_h h data variation = Some (results, h') \<and>
        unchanged_from h h' \<and> snapshot h' data = Some d \<and>
        length h \<le> results \<and>
        (\<exists>res. read_results h' results = Some res \<and>
               performSensitivityAnalysis d variation = Some res))"
proof
  assume "snapshot h data = Some d"
  from performSensitivityAnalysis_h_refines [OF this, of variation]
  obtain results h' res where
    c: "performSensitivityAnalysis_h h data variation = Some (results, h')"
    and r: "unchanged_from h h'" "snapshot h' data = Some d"
      "performSensitivityAnalysis d variation = Some res" "read_results h' results = Some res"
    by blast
  from c have "results = length h"
    unfolding performSensitivityAnalysis_h_def Let_def alloc_def
    by (auto split: bind_splits prod.splits)
  with c r show "\<exists>results h'.
        performSensitivityAnalysis_h h data variation = Some (results, h') \<and>
        unchanged_from h h' \<and> snapshot h' data = Some d \<and>
        length h \<le> results \<and>
        (\<exists>res. read_results h' results = Some res \<and>
               performSensitivityAnalysis d variation = Some res)"
    by auto
qed

theorem performSensitivityAnalysis_leaves_input_witness:
  "\<exists>results h'.
     performSensitivityAnalysis_h
       [ProjectCell \<lparr> capexItems_ref = 1, opexCashIn_ref = 2, opexCashOut_ref = 3,
                      projectYears_val = 1, discountRate_val = 25,
                      opexInGrowth_val = 0, opexOutGrowth_val = 0 \<rparr>,
        ItemsCell [], ItemsCell [], ItemsCell [4],
        ItemCell \<lparr> id_fld = ''1'', name = ''Wages'', volume = 1, unit_fld = ''year'', price = 156 \<rparr>]
       0 20 = Some (results, h') \<and>
     take 5 h' =
       [ProjectCell \<lparr> capexItems_ref = 1, opexCashIn_ref = 2, opexCashOut_ref = 3,
                      projectYears_val = 1, discountRate_val = 25,
                      opexInGrowth_val = 0, opexOutGrowth_val = 0 \<rparr>,
        ItemsCell [], ItemsCell [], ItemsCell [4],
        ItemCell \<lparr> id_fld = ''1'', name = ''Wages'', volume = 1, unit_fld = ''year'', price = 156 \<rparr>]"
proof -
  let ?h = "[ProjectCell \<lparr> capexItems_ref = 1, opexCashIn_ref = 2, opexCashOut_ref = 3,
                      projectYears_val = 1, discountRate_val = 25,
                      opexInGrowth_val = 0, opexOutGrowth_val = 0 \<rparr>,
        ItemsCell [], ItemsCell [], ItemsCell [4],
        ItemCell \<lparr> id_fld = ''1'', name = ''Wages'', volume = 1, unit_fld = ''year'', price = 156 \<rparr>]"
  let ?d = "\<lparr> capexItems = [], opexCashIn = [],
       opexCashOut = [\<lparr> id_fld = ''1'', name = ''Wages'', volume = 1, unit_fld = ''year'', price = 156 \<rparr>],
       projectYears = 1, discountRate = 25, opexInGrowth = 0, opexOutGrowth = 0 \<rparr>"
  have s: "snapshot ?h 0 = Some ?d"
    by (simp add: snapshot_def read_project_def read_array_def read_item_def cell_at_def)
  from performSensitivityAnalysis_leaves_input [of ?h 0 ?d 20] s
  obtain results h' where c: "performSensitivityAnalysis_h ?h 0 20 = Some (results, h')"
    and u: "unchanged_from ?h h'"
    by blast
  from u have "take (length ?h) h' = ?h" by (simp only: unchanged_from_def)
  moreover have "length ?h = 5" by simp
  ultimately have "take 5 h' = ?h" by (simp only:)
  with c show ?thesis by blast
qed



end
